theory Spec2Isabelle
  imports Main
begin

section \<open>Values of the host language\<close>

text \<open>
  The repository holds two versions of one view module: the older one collects the
  statistics of the interface, the newer one adds the status of the peers. The definitions
  follow the newer one unless they say otherwise; line numbers are those of its source.

  The view module is JavaScript. A string is a sequence of code units; the model uses
  \<^typ>\<open>string\<close>, so it covers the code units below 256. Numbers are the integers
  and the two infinities: a number is a double, and the model holds the doubles that are
  integers (byte counters and exit codes); fractions are outside the model. A value read
  from a parsed JSON document is a \<open>jsval\<close>; an object holds its own properties in the
  order in which \<open>Object.values\<close> walks them.
\<close>

datatype jsval =
    JUndefined
  | JNull
  | JBool bool
  | JNum int
  | JInfinity
  | JNegInfinity
  | JStr string
  | JArr "jsval list"
  | JObj "(string \<times> jsval) list"

text \<open>What \<open>!v\<close>, \<open>v || d\<close> and \<open>v ? a : b\<close> test.\<close>

fun js_truthy :: "jsval \<Rightarrow> bool" where
  "js_truthy JUndefined = False"
| "js_truthy JNull = False"
| "js_truthy (JBool b) = b"
| "js_truthy (JNum n) = (n \<noteq> 0)"
| "js_truthy JInfinity = True"
| "js_truthy JNegInfinity = True"
| "js_truthy (JStr s) = (s \<noteq> [])"
| "js_truthy (JArr xs) = True"
| "js_truthy (JObj kvs) = True"

fun js_nullish :: "jsval \<Rightarrow> bool" where
  "js_nullish JUndefined = True"
| "js_nullish JNull = True"
| "js_nullish v = False"

text \<open>
  The Number value of a decimal numeral. A double has 53 significant bits: a natural
  number below \<open>2^53\<close> is a double, a larger one is rounded to the nearest double, to the
  even significand when two are equally near, and to infinity (\<open>None\<close>) when the rounded
  magnitude reaches \<open>2^1024\<close>. \<open>double_exponent a\<close> is the number of low bits that the
  rounding of \<open>a\<close> drops.
\<close>

fun double_exponent :: "nat \<Rightarrow> nat" where
  "double_exponent a = (if a < 2 ^ 53 then 0 else Suc (double_exponent (a div 2)))"

declare double_exponent.simps [simp del]

definition round_double :: "nat \<Rightarrow> nat option" where
  "round_double a =
     (let e = double_exponent a;
          q = a div 2 ^ e;
          r = a mod 2 ^ e;
          q' = (if 2 ^ e < 2 * r \<or> (2 * r = 2 ^ e \<and> odd q) then q + 1 else q)
      in if q' * 2 ^ e < 2 ^ 1024 then Some (q' * 2 ^ e) else None)"

text \<open>The number that a sign and the value of a run of decimal digits denote.\<close>

definition js_number :: "bool \<Rightarrow> nat \<Rightarrow> jsval" where
  "js_number neg a =
     (case round_double a of
        Some d \<Rightarrow> JNum (if neg then - int d else int d)
      | None \<Rightarrow> if neg then JNegInfinity else JInfinity)"

text \<open>
  An exception that the module can meet, with its \<open>message\<close> property: the two kinds
  that the language throws here, and the error with which a host facility rejects a
  promise. The texts of the \<open>TypeError\<close>s are worded as one engine words them; nothing
  depends on the wording.
\<close>

datatype js_error = SyntaxError string | TypeError string | HostError string

fun error_message :: "js_error \<Rightarrow> string" where
  "error_message (SyntaxError m) = m"
| "error_message (TypeError m) = m"
| "error_message (HostError m) = m"

text \<open>How a promise settles.\<close>

datatype 'a settled = Rejects js_error | Resolves 'a

subsection \<open>String operations\<close>

text \<open>
  The white space of \<open>String.prototype.trim\<close>, of \<open>\s\<close> in a regular expression and of
  \<open>parseInt\<close>: tab, line feed, vertical tab, form feed, carriage return, space and
  no-break space.
\<close>

definition js_space :: "char \<Rightarrow> bool" where
  "js_space c = (c \<in> set [CHR 0x09, CHR 0x0A, CHR 0x0B, CHR 0x0C, CHR 0x0D, CHR 0x20, CHR 0xA0])"

definition js_trim :: "string \<Rightarrow> string" where
  "js_trim s = rev (dropWhile js_space (rev (dropWhile js_space s)))"

text \<open>\<open>s.includes(pat)\<close>: \<open>pat\<close> occurs in \<open>s\<close> as a contiguous piece.\<close>

fun js_includes :: "string \<Rightarrow> string \<Rightarrow> bool" where
  "js_includes [] pat = (pat = [])"
| "js_includes (c # cs) pat = (take (length pat) (c # cs) = pat \<or> js_includes cs pat)"

text \<open>\<open>s.startsWith(pat)\<close>.\<close>

definition startsWith :: "string \<Rightarrow> string \<Rightarrow> bool" where
  "startsWith s pat = (take (length pat) s = pat)"

text \<open>\<open>s.split(c)\<close> for a one-character separator: the pieces between the separators,
  never an empty list.\<close>

fun js_split :: "char \<Rightarrow> string \<Rightarrow> string list" where
  "js_split sep [] = [[]]"
| "js_split sep (c # cs) =
     (if c = sep then [] # js_split sep cs
      else (case js_split sep cs of
              p # ps \<Rightarrow> (c # p) # ps
            | [] \<Rightarrow> [[c]]))"

subsection \<open>Facilities of the host framework\<close>

text \<open>
  Modelled from the spec: the translation function \<open>_\<close> belongs to the host framework
  and is not part of the repository. The spec names the messages by their English texts,
  which are the message identifiers; the model returns the identifier.
\<close>

definition gettext :: "string \<Rightarrow> string" where
  "gettext msgid = msgid"

text \<open>
  Modelled from the spec: \<open>String.prototype.format\<close> belongs to the host framework and
  is not part of the repository. On a template with one \<open>%s\<close> directive the spec asks for
  ``a generic failure message containing the raw text'': the directive is replaced by the
  argument.
\<close>

fun format_s :: "string \<Rightarrow> string \<Rightarrow> string" where
  "format_s (c # d # rest) arg =
     (if c = CHR ''%'' \<and> d = CHR ''s'' then arg @ rest else c # format_s (d # rest) arg)"
| "format_s [c] arg = [c]"
| "format_s [] arg = []"

text \<open>Decimal notation of a natural number.\<close>

fun digit_char :: "nat \<Rightarrow> char" where
  "digit_char d = char_of (48 + d)"

fun dec :: "nat \<Rightarrow> string" where
  "dec n = (if n < 10 then [digit_char n] else dec (n div 10) @ [digit_char (n mod 10)])"

declare digit_char.simps [simp del] dec.simps [simp del]

definition render_int :: "int \<Rightarrow> string" where
  "render_int i = (if i < 0 then CHR ''-'' # dec (nat (- i)) else dec (nat i))"

text \<open>
  Modelled from the spec: the directive \<open>%1024mB\<close> of the host's \<open>format\<close> is not part
  of the repository. The spec: ``convert an integer count of bytes into binary megabytes
  (divide by 1024 squared) and render with a unit suffix; a non-numeric or missing input
  defaults to zero before formatting'', with \<open>2097152\<close> rendered as \<open>2 MB\<close> and zero as
  \<open>0 MB\<close>. The quotient is rendered as a whole number, as in the spec's two examples,
  and an infinite count by its name.
\<close>

definition format_1024mB :: "jsval \<Rightarrow> string" where
  "format_1024mB v =
     (case v of
        JInfinity \<Rightarrow> ''Infinity''
      | JNegInfinity \<Rightarrow> ''-Infinity''
      | JNum n \<Rightarrow> render_int (n div 1048576)
      | _ \<Rightarrow> render_int 0) @ '' MB''"

section \<open>The interface collector\<close>

text \<open>
  \<open>fs.read\<close> and \<open>fs.exec\<close> are the host's file-read and process-execution
  facilities. The collector tests what they resolve to: a read gives the text of the file
  or a failure indicator (\<open>None\<close>, a falsy value); the command gives an object holding
  the exit code, the standard output when there is one and a \<open>message\<close> property, or
  nothing (\<open>None\<close>) when it could not be executed.
\<close>

record exec_result =
  code :: int
  stdout :: "string option"
  message :: jsval

record InterfaceInfo =
  name :: string
  rxBytes :: string
  txBytes :: string
  mtu :: string
  ipv4 :: string
  ipv6 :: string

text \<open>What \<open>!res\<close> and \<open>res ? a : b\<close> test on a text or a missing value: an empty text
  is as false as a missing one.\<close>

fun str_truthy :: "string option \<Rightarrow> bool" where
  "str_truthy None = False"
| "str_truthy (Some s) = (s \<noteq> [])"

definition is_digit :: "char \<Rightarrow> bool" where
  "is_digit c = (48 \<le> (of_char c :: nat) \<and> (of_char c :: nat) \<le> 57)"

definition digit_val :: "char \<Rightarrow> nat" where
  "digit_val c = of_char c - 48"

text \<open>
  \<open>parseInt(s, 10)\<close>: white space, a sign, then the longest run of decimal digits;
  \<open>None\<close> is \<open>NaN\<close>, the result when there is no digit. The result is the Number value
  of the integer that the digits denote. The language lets an implementation replace by
  zero every digit after the twentieth significant one; the model keeps them, and the
  claims below speak of counts below \<open>2^53\<close>, of at most 16 digits.
\<close>

definition parseInt10 :: "string \<Rightarrow> jsval option" where
  "parseInt10 s =
     (let s1 = dropWhile js_space s;
          neg = (case s1 of c # rest \<Rightarrow> c = CHR ''-'' | [] \<Rightarrow> False);
          s2 = (case s1 of
                  c # rest \<Rightarrow> if c = CHR ''+'' \<or> c = CHR ''-'' then rest else s1
                | [] \<Rightarrow> s1);
          ds = takeWhile is_digit s2
      in if ds = [] then None
         else Some (js_number neg (foldl (\<lambda>a c. 10 * a + digit_val c) 0 ds)))"

text \<open>\<open>parseInt(s, 10) || 0\<close>.\<close>

definition parseInt10_or_0 :: "string \<Rightarrow> jsval" where
  "parseInt10_or_0 s =
     (case parseInt10 s of None \<Rightarrow> JNum 0 | Some v \<Rightarrow> if js_truthy v then v else JNum 0)"

text \<open>
  The capture group of \<open>line.match(/^\s*MARKER\s+([CLASS]+)/)\<close>, \<open>None\<close> when the line
  does not match. Neither marker begins with white space and neither class holds white
  space, so each greedy quantifier takes all it can and never gives anything back.
\<close>

definition match_marker :: "string \<Rightarrow> (char \<Rightarrow> bool) \<Rightarrow> string \<Rightarrow> string option" where
  "match_marker marker cls line =
     (let s1 = dropWhile js_space line in
        if take (length marker) s1 = marker then
          (let s2 = drop (length marker) s1 in
             if takeWhile js_space s2 \<noteq> [] then
               (let tok = takeWhile cls (dropWhile js_space s2) in
                  if tok \<noteq> [] then Some tok else None)
             else None)
        else None)"

definition dotted_class :: "char \<Rightarrow> bool" where
  "dotted_class c = (is_digit c \<or> c = CHR ''.'')"

definition hex_colon_class :: "char \<Rightarrow> bool" where
  "hex_colon_class c =
     (is_digit c \<or> c \<in> set ''abcdef'' \<or> c \<in> set ''ABCDEF'' \<or> c = CHR '':'')"

text \<open>Line 42: \<open>/^\s*inet\s+([0-9.]+)/\<close>; line 47: \<open>/^\s*inet6\s+([0-9a-fA-F:]+)/\<close>.\<close>

definition ipv4Match :: "string \<Rightarrow> string option" where
  "ipv4Match line = match_marker ''inet'' dotted_class line"

definition ipv6Match :: "string \<Rightarrow> string option" where
  "ipv6Match line = match_marker ''inet6'' hex_colon_class line"

text \<open>Lines 40 to 51: the loop over the lines, on the fields \<open>ipv4\<close> and \<open>ipv6\<close> of
  \<open>parsedInfo\<close> (\<open>None\<close> while a field is not set).\<close>

fun scan_lines ::
  "string list \<Rightarrow> string option \<times> string option \<Rightarrow> string option \<times> string option" where
  "scan_lines [] st = st"
| "scan_lines (line # rest) (v4, v6) =
     (let v4' = (case ipv4Match line of
                   Some t \<Rightarrow> if \<not> str_truthy v4 then Some t else v4
                 | None \<Rightarrow> v4);
          v6' = (case ipv6Match line of
                   Some t \<Rightarrow> if \<not> str_truthy v6 \<and> \<not> startsWith t ''fe80'' then Some t else v6
                 | None \<Rightarrow> v6)
      in scan_lines rest (v4', v6'))"

text \<open>\<open>field || '-'\<close>.\<close>

fun or_dash :: "string option \<Rightarrow> string" where
  "or_dash None = ''-''"
| "or_dash (Some s) = (if s \<noteq> [] then s else ''-'')"

text \<open>
  Lines 15 to 58, from the four values that \<open>Promise.all\<close> resolves to; \<open>None\<close> is the
  \<open>null\<close> of line 29.
\<close>

definition loadInterfaceInfo ::
  "string option \<Rightarrow> string option \<Rightarrow> string option \<Rightarrow> exec_result option
     \<Rightarrow> InterfaceInfo option" where
  "loadInterfaceInfo rxRes txRes mtuRes ipRes =
     (if \<not> str_truthy rxRes \<and> \<not> str_truthy mtuRes \<and>
         (case ipRes of None \<Rightarrow> True | Some r \<Rightarrow> code r \<noteq> 0)
      then None
      else
        (let found =
               (case ipRes of
                  None \<Rightarrow> (None, None)
                | Some r \<Rightarrow>
                    (case stdout r of
                       None \<Rightarrow> (None, None)
                     | Some out \<Rightarrow>
                         if code r = 0 \<and> out \<noteq> []
                         then scan_lines (js_split (CHR 0x0A) out) (None, None)
                         else (None, None)))
         in Some \<lparr> name = ''tailscale0'',
                   rxBytes = (case rxRes of
                                None \<Rightarrow> ''-''
                              | Some s \<Rightarrow>
                                  if s \<noteq> []
                                  then format_1024mB (parseInt10_or_0 (js_trim s))
                                  else ''-''),
                   txBytes = (case txRes of
                                None \<Rightarrow> ''-''
                              | Some s \<Rightarrow>
                                  if s \<noteq> []
                                  then format_1024mB (parseInt10_or_0 (js_trim s))
                                  else ''-''),
                   mtu = (case mtuRes of
                            None \<Rightarrow> ''-''
                          | Some s \<Rightarrow> if s \<noteq> [] then js_trim s else ''-''),
                   ipv4 = or_dash (fst found),
                   ipv6 = or_dash (snd found) \<rparr>))"

text \<open>
  The older view (\<open>interface.js\<close>, \<open>load\<close>, lines 15 to 58) runs the same statements
  and differs in its two returns: the empty list where \<open>loadInterfaceInfo\<close> returns
  \<open>null\<close>, and the one-element list of the record otherwise.
\<close>

definition load_interface_js ::
  "string option \<Rightarrow> string option \<Rightarrow> string option \<Rightarrow> exec_result option
     \<Rightarrow> InterfaceInfo list" where
  "load_interface_js rxRes txRes mtuRes ipRes =
     (case loadInterfaceInfo rxRes txRes mtuRes ipRes of
        None \<Rightarrow> []
      | Some parsedInfo \<Rightarrow> [parsedInfo])"

section \<open>The peer status collector\<close>

text \<open>
  \<open>fs.exec\<close> is the host's process-execution facility: its promise is rejected with an
  error object, of which the handler of line 61 reads the \<open>message\<close> property
  (\<open>Rejected\<close> holds the value of that property, \<open>undefined\<close> when the error has
  none), or resolved with an object holding the exit code, the standard output when there
  is one, and a \<open>message\<close> property, or resolved with nothing (\<open>null\<close>), the outcome
  that line 28 tests for on the same facility.
\<close>

datatype exec_outcome =
    Rejected jsval
  | Resolved exec_result
  | ResolvedNothing

record PeerSummary =
  ip :: jsval
  hostname :: jsval
  online :: jsval
  relay :: jsval
  direct :: bool
  rxBytes :: string
  txBytes :: string

datatype PeerStatus =
    PeerError string
  | PeerList "PeerSummary list"

text \<open>
  \<open>v.key\<close> for the property names the collector reads (\<open>Peer\<close>, \<open>DNSName\<close>,
  \<open>HostName\<close>, \<open>TailscaleIPs\<close>, \<open>Online\<close>, \<open>Relay\<close>, \<open>CurAddr\<close>, \<open>RxBytes\<close>,
  \<open>TxBytes\<close>): reading a property of \<open>null\<close> or \<open>undefined\<close> throws, an object gives its
  own property, and no prototype has a property of one of these names.
\<close>

fun get_prop :: "string \<Rightarrow> jsval \<Rightarrow> string \<Rightarrow> js_error + jsval" where
  "get_prop nm JUndefined key = Inl (TypeError (nm @ '' is undefined''))"
| "get_prop nm JNull key = Inl (TypeError (nm @ '' is null''))"
| "get_prop nm (JObj kvs) key =
     Inr (case map_of kvs key of Some v \<Rightarrow> v | None \<Rightarrow> JUndefined)"
| "get_prop nm v key = Inr JUndefined"

text \<open>\<open>v?.[0]\<close>: \<open>undefined\<close> on \<open>null\<close> and \<open>undefined\<close>, the first element of an array,
  the first code unit of a string, the property \<open>0\<close> of an object.\<close>

fun opt_index0 :: "jsval \<Rightarrow> jsval" where
  "opt_index0 (JArr (x # xs)) = x"
| "opt_index0 (JStr (c # cs)) = JStr [c]"
| "opt_index0 (JObj kvs) = (case map_of kvs ''0'' of Some v \<Rightarrow> v | None \<Rightarrow> JUndefined)"
| "opt_index0 v = JUndefined"

text \<open>\<open>Object.values(v)\<close> for a value that is neither \<open>null\<close> nor \<open>undefined\<close>.\<close>

fun object_values :: "jsval \<Rightarrow> jsval list" where
  "object_values (JObj kvs) = map snd kvs"
| "object_values (JArr xs) = xs"
| "object_values (JStr s) = map (\<lambda>c. JStr [c]) s"
| "object_values v = []"

text \<open>\<open>v || d\<close>.\<close>

definition js_or :: "jsval \<Rightarrow> jsval \<Rightarrow> jsval" where
  "js_or v d = (if js_truthy v then v else d)"

text \<open>
  Line 87: \<open>peer.DNSName ? peer.DNSName.split('.')[0] : (peer.HostName || '-')\<close>. Only a
  string has a \<open>split\<close> method: on any other truthy value the call throws.
\<close>

definition peer_hostname :: "jsval \<Rightarrow> js_error + jsval" where
  "peer_hostname peer =
     (case get_prop ''peer'' peer ''DNSName'' of
        Inl e \<Rightarrow> Inl e
      | Inr dnsName \<Rightarrow>
          if js_truthy dnsName then
            (case dnsName of
               JStr s \<Rightarrow>
                 (case js_split CHR ''.'' s of
                    p # ps \<Rightarrow> Inr (JStr p)
                  | [] \<Rightarrow> Inr JUndefined)
             | _ \<Rightarrow> Inl (TypeError ''peer.DNSName.split is not a function''))
          else
            (case get_prop ''peer'' peer ''HostName'' of
               Inl e \<Rightarrow> Inl e
             | Inr hostName \<Rightarrow> Inr (js_or hostName (JStr ''-''))))"

text \<open>A property of a value already known to be neither \<open>null\<close> nor \<open>undefined\<close>.\<close>

definition js_field :: "jsval \<Rightarrow> string \<Rightarrow> jsval" where
  "js_field v key = (case get_prop ''peer'' v key of Inr x \<Rightarrow> x | Inl e \<Rightarrow> JUndefined)"

text \<open>Lines 86 to 97: the body of the loop, for one peer.\<close>

definition peer_summary :: "jsval \<Rightarrow> js_error + PeerSummary" where
  "peer_summary peer =
     (case peer_hostname peer of
        Inl e \<Rightarrow> Inl e
      | Inr h \<Rightarrow>
          Inr \<lparr> ip = js_or (let ips = js_field peer ''TailscaleIPs''
                            in if js_nullish ips then JUndefined else opt_index0 ips)
                           (JStr ''-''),
                hostname = h,
                online = js_field peer ''Online'',
                relay = js_or (js_field peer ''Relay'') (JStr ''-''),
                direct = js_truthy (js_field peer ''CurAddr''),
                rxBytes = (if js_truthy (js_field peer ''RxBytes'')
                           then format_1024mB (js_field peer ''RxBytes'') else ''-''),
                txBytes = (if js_truthy (js_field peer ''TxBytes'')
                           then format_1024mB (js_field peer ''TxBytes'') else ''-'') \<rparr>)"

text \<open>Lines 85 to 98: the loop; the first peer that throws ends it.\<close>

fun peer_loop :: "jsval list \<Rightarrow> PeerSummary list \<Rightarrow> js_error + PeerSummary list" where
  "peer_loop [] peerList = Inr peerList"
| "peer_loop (peer # rest) peerList =
     (case peer_summary peer of
        Inl e \<Rightarrow> Inl e
      | Inr s \<Rightarrow> peer_loop rest (peerList @ [s]))"

text \<open>
  Lines 81 to 100: the body of the \<open>try\<close>. \<open>JSON.parse\<close> is the parameter \<open>parse\<close>: it
  returns the document or throws a \<open>SyntaxError\<close>.
\<close>

definition status_try :: "(string \<Rightarrow> js_error + jsval) \<Rightarrow> string \<Rightarrow> js_error + PeerStatus" where
  "status_try parse out =
     (case parse out of
        Inl e \<Rightarrow> Inl e
      | Inr statusJson \<Rightarrow>
          (case get_prop ''statusJson'' statusJson ''Peer'' of
             Inl e \<Rightarrow> Inl e
           | Inr p \<Rightarrow>
               (case peer_loop (object_values (js_or p (JObj []))) [] of
                  Inl e \<Rightarrow> Inl e
                | Inr peerList \<Rightarrow> Inr (PeerList peerList))))"

text \<open>
  Lines 61 to 64: the value of \<open>statusRes\<close>: the result of the command, the object that
  the handler builds after a rejection, or nothing (\<open>None\<close>) when the command resolved
  with nothing.
\<close>

definition await_status :: "exec_outcome \<Rightarrow> exec_result option" where
  "await_status outcome =
     (case outcome of
        Resolved r \<Rightarrow> Some r
      | Rejected err_message \<Rightarrow>
          Some \<lparr> code = 1, stdout = None,
                 message = js_or err_message (JStr ''Failed to execute tailscale command'') \<rparr>
      | ResolvedNothing \<Rightarrow> None)"

text \<open>
  Lines 60 to 104. A result \<open>Inl e\<close> is an exception that leaves the collector. Line 66
  reads \<open>statusRes.code\<close> outside the \<open>try\<close>: when \<open>statusRes\<close> is nothing, that
  read throws.
\<close>

definition loadPeerStatus ::
  "(string \<Rightarrow> js_error + jsval) \<Rightarrow> exec_outcome \<Rightarrow> js_error + PeerStatus" where
  \<open>loadPeerStatus parse outcome =
     (case await_status outcome of
        None \<Rightarrow> Inl (TypeError ''statusRes is null'')
      | Some statusRes \<Rightarrow>
        if code statusRes \<noteq> 0 then
          (let msg = (case message statusRes of JStr m \<Rightarrow> m | _ \<Rightarrow> ''Command failed'')
           in
             if js_includes msg ''Permission'' then
               Inr (PeerError (gettext
                 ''Permission denied: Ensure LuCI has access to run "tailscale status".''))
             else if js_includes msg ''not running'' \<or> js_includes msg ''stopped'' then
               Inr (PeerError (gettext ''Tailscale service is not running.''))
             else
               Inr (PeerError (format_s (gettext ''Unable to get Tailscale status: %s'') msg)))
        else
          (case stdout statusRes of
             None \<Rightarrow> Inr (PeerError (gettext ''Tailscale status returned empty output.''))
           | Some out \<Rightarrow>
               if out = [] \<or> js_trim out = [] then
                 Inr (PeerError (gettext ''Tailscale status returned empty output.''))
               else
                 (case status_try parse out of
                    Inr r \<Rightarrow> Inr r
                  | Inl e \<Rightarrow>
                      Inr (PeerError
                        (format_s (gettext ''Error parsing Tailscale status: %s'')
                           (error_message e))))))\<close>

section \<open>The combined load\<close>

record load_result =
  interfaceInfo :: "InterfaceInfo option"
  peerStatus :: PeerStatus

text \<open>
  Lines 20 to 25: \<open>loadInterfaceInfo\<close> awaits its four reads together, with no handler.
  When the promise of one of them is rejected, the promise of \<open>loadInterfaceInfo\<close> is
  rejected with that error; when the four resolve, it resolves to what the body returns on
  their values. When several are rejected the caller sees the one that was rejected first
  in time; the model gives the first in the order of the source, and no property below
  depends on which.
\<close>

definition loadInterfaceInfo_promise ::
  "string option settled \<Rightarrow> string option settled \<Rightarrow> string option settled
     \<Rightarrow> exec_result option settled \<Rightarrow> js_error + InterfaceInfo option" where
  "loadInterfaceInfo_promise rxRead txRead mtuRead ipExec =
     (case rxRead of Rejects e \<Rightarrow> Inl e | Resolves rxRes \<Rightarrow>
     (case txRead of Rejects e \<Rightarrow> Inl e | Resolves txRes \<Rightarrow>
     (case mtuRead of Rejects e \<Rightarrow> Inl e | Resolves mtuRes \<Rightarrow>
     (case ipExec of Rejects e \<Rightarrow> Inl e | Resolves ipRes \<Rightarrow>
        Inr (loadInterfaceInfo rxRes txRes mtuRes ipRes)))))"

text \<open>
  Lines 106 to 113: \<open>Promise.all\<close> of the two collectors; an exception of one of them
  is an exception of \<open>load\<close>. When both raise, the model gives that of the interface
  collector, and no property below depends on which.
\<close>

definition load ::
  "(string \<Rightarrow> js_error + jsval) \<Rightarrow> string option settled \<Rightarrow> string option settled
     \<Rightarrow> string option settled \<Rightarrow> exec_result option settled \<Rightarrow> exec_outcome
     \<Rightarrow> js_error + load_result" where
  "load parse rxRead txRead mtuRead ipExec outcome =
     (case loadInterfaceInfo_promise rxRead txRead mtuRead ipExec of
        Inl e \<Rightarrow> Inl e
      | Inr info \<Rightarrow>
          (case loadPeerStatus parse outcome of
             Inl e \<Rightarrow> Inl e
           | Inr st \<Rightarrow> Inr \<lparr> interfaceInfo = info, peerStatus = st \<rparr>))"

section \<open>A reader of JSON texts\<close>

text \<open>
  The collector is stated for any \<open>JSON.parse\<close>. To run it on a concrete text, this
  reader implements the JSON grammar on the values of the model: it refuses a number with
  a fraction or an exponent and a \<open>\u\<close> escape above 255, which the model cannot hold,
  and gives an integer numeral its Number value. An
  object keeps its properties in the order of \<open>Object.values\<close>: array indices first, in
  ascending order, then the other names in the order of their first appearance, a later
  value replacing an earlier one of the same name. The first argument of \<open>json_value\<close>
  bounds the number of nested calls; the length of the text is enough.
\<close>

definition json_ws :: "char \<Rightarrow> bool" where
  "json_ws c = (c \<in> set [CHR 0x20, CHR 0x09, CHR 0x0A, CHR 0x0D])"

definition hex_val :: "char \<Rightarrow> nat option" where
  "hex_val c =
     (let k = (of_char c :: nat) in
        if 48 \<le> k \<and> k \<le> 57 then Some (k - 48)
        else if 97 \<le> k \<and> k \<le> 102 then Some (k - 87)
        else if 65 \<le> k \<and> k \<le> 70 then Some (k - 55)
        else None)"

definition json_escape :: "char \<Rightarrow> char option" where
  "json_escape e =
     (if e = CHR 0x22 \<or> e = CHR 0x5C \<or> e = CHR ''/'' then Some e
      else if e = CHR ''b'' then Some (CHR 0x08)
      else if e = CHR ''f'' then Some (CHR 0x0C)
      else if e = CHR ''n'' then Some (CHR 0x0A)
      else if e = CHR ''r'' then Some (CHR 0x0D)
      else if e = CHR ''t'' then Some (CHR 0x09)
      else None)"

definition json_unicode :: "char \<Rightarrow> char \<Rightarrow> char \<Rightarrow> char \<Rightarrow> char option" where
  "json_unicode a b c d =
     (case (hex_val a, hex_val b, hex_val c, hex_val d) of
        (Some 0, Some 0, Some h, Some l) \<Rightarrow> Some (char_of (16 * h + l))
      | _ \<Rightarrow> None)"

fun json_string :: "string \<Rightarrow> (string \<times> string) option" where
  "json_string [] = None"
| "json_string (c # cs) =
     (if c = CHR 0x22 then Some ([], cs)
      else if c = CHR 0x5C then
        (case cs of
           e # cs' \<Rightarrow>
             if e = CHR ''u'' then
               (case cs' of
                  h1 # h2 # h3 # h4 # cs'' \<Rightarrow>
                    (case json_unicode h1 h2 h3 h4 of
                       Some ch \<Rightarrow> map_option (\<lambda>(s, r). (ch # s, r)) (json_string cs'')
                     | None \<Rightarrow> None)
                | _ \<Rightarrow> None)
             else
               (case json_escape e of
                  Some ch \<Rightarrow> map_option (\<lambda>(s, r). (ch # s, r)) (json_string cs')
                | None \<Rightarrow> None)
         | [] \<Rightarrow> None)
      else if (of_char c :: nat) < 32 then None
      else map_option (\<lambda>(s, r). (c # s, r)) (json_string cs))"

definition json_number :: "string \<Rightarrow> (jsval \<times> string) option" where
  "json_number s =
     (let neg = (case s of c # cs \<Rightarrow> c = CHR ''-'' | [] \<Rightarrow> False);
          s1 = (if neg then tl s else s);
          ds = takeWhile is_digit s1;
          r = dropWhile is_digit s1
      in if ds = [] \<or> (length ds > 1 \<and> hd ds = CHR ''0'') then None
         else if (case r of c # cs \<Rightarrow> c = CHR ''.'' \<or> c = CHR ''e'' \<or> c = CHR ''E'' | [] \<Rightarrow> False)
         then None
         else Some (js_number neg (foldl (\<lambda>a c. 10 * a + digit_val c) 0 ds), r))"

definition is_index_key :: "string \<Rightarrow> bool" where
  "is_index_key k =
     (k \<noteq> [] \<and> list_all is_digit k \<and> (k = ''0'' \<or> hd k \<noteq> CHR ''0'') \<and>
      foldl (\<lambda>a c. 10 * a + digit_val c) 0 k < 4294967295)"

fun define_property :: "(string \<times> jsval) list \<Rightarrow> string \<Rightarrow> jsval \<Rightarrow> (string \<times> jsval) list" where
  "define_property [] k v = [(k, v)]"
| "define_property ((k', v') # kvs) k v =
     (if k' = k then (k, v) # kvs else (k', v') # define_property kvs k v)"

definition json_object :: "(string \<times> jsval) list \<Rightarrow> jsval" where
  "json_object members =
     (let props = foldl (\<lambda>acc (k, v). define_property acc k v) [] members
      in JObj (sort_key (\<lambda>(k, v). foldl (\<lambda>a c. 10 * a + digit_val c) 0 k)
                 (filter (\<lambda>(k, v). is_index_key k) props)
               @ filter (\<lambda>(k, v). \<not> is_index_key k) props))"

fun json_value :: "nat \<Rightarrow> string \<Rightarrow> (jsval \<times> string) option"
  and json_members :: "nat \<Rightarrow> string \<Rightarrow> ((string \<times> jsval) list \<times> string) option"
  and json_elements :: "nat \<Rightarrow> string \<Rightarrow> (jsval list \<times> string) option" where
  "json_value 0 s = None"
| "json_value (Suc f) s =
     (case dropWhile json_ws s of
        [] \<Rightarrow> None
      | c # cs \<Rightarrow>
          if c = CHR ''{'' then
            (case dropWhile json_ws cs of
               [] \<Rightarrow> None
             | d # ds \<Rightarrow>
                 if d = CHR ''}'' then Some (JObj [], ds)
                 else map_option (\<lambda>(kvs, r). (json_object kvs, r)) (json_members f cs))
          else if c = CHR ''['' then
            (case dropWhile json_ws cs of
               [] \<Rightarrow> None
             | d # ds \<Rightarrow>
                 if d = CHR '']'' then Some (JArr [], ds)
                 else map_option (\<lambda>(vs, r). (JArr vs, r)) (json_elements f cs))
          else if c = CHR 0x22 then map_option (\<lambda>(s, r). (JStr s, r)) (json_string cs)
          else if take 4 (c # cs) = ''true'' then Some (JBool True, drop 4 (c # cs))
          else if take 5 (c # cs) = ''false'' then Some (JBool False, drop 5 (c # cs))
          else if take 4 (c # cs) = ''null'' then Some (JNull, drop 4 (c # cs))
          else json_number (c # cs))"
| "json_members 0 s = None"
| "json_members (Suc f) s =
     (case dropWhile json_ws s of
        [] \<Rightarrow> None
      | c # cs \<Rightarrow>
          if c = CHR 0x22 then
            (case json_string cs of
               None \<Rightarrow> None
             | Some (k, r1) \<Rightarrow>
                 (case dropWhile json_ws r1 of
                    [] \<Rightarrow> None
                  | c2 # r2 \<Rightarrow>
                      if c2 = CHR '':'' then
                        (case json_value f r2 of
                           None \<Rightarrow> None
                         | Some (v, r3) \<Rightarrow>
                             (case dropWhile json_ws r3 of
                                [] \<Rightarrow> None
                              | c3 # r4 \<Rightarrow>
                                  if c3 = CHR '','' then
                                    map_option (\<lambda>(kvs, r). ((k, v) # kvs, r)) (json_members f r4)
                                  else if c3 = CHR ''}'' then Some ([(k, v)], r4)
                                  else None))
                      else None))
          else None)"
| "json_elements 0 s = None"
| "json_elements (Suc f) s =
     (case json_value f s of
        None \<Rightarrow> None
      | Some (v, r1) \<Rightarrow>
          (case dropWhile json_ws r1 of
             [] \<Rightarrow> None
           | c # r2 \<Rightarrow>
               if c = CHR '','' then map_option (\<lambda>(vs, r). (v # vs, r)) (json_elements f r2)
               else if c = CHR '']'' then Some ([v], r2)
               else None))"

definition json_parse :: "string \<Rightarrow> js_error + jsval" where
  "json_parse s =
     (case json_value (Suc (length s)) s of
        None \<Rightarrow> Inl (SyntaxError ''JSON.parse: unexpected character or end of data'')
      | Some (v, r) \<Rightarrow>
          if dropWhile json_ws r = [] then Inr v
          else Inl (SyntaxError ''JSON.parse: unexpected non-whitespace character after JSON data''))"

section \<open>Notions of the specification\<close>

text \<open>
  A dotted quad, as the specification's ``dotted-quad token'' reads: four non-empty runs of
  decimal digits, separated by three dots.
\<close>

definition dotted_quad :: "string \<Rightarrow> bool" where
  "dotted_quad s =
     (let parts = js_split CHR ''.'' s
      in length parts = 4 \<and> list_all (\<lambda>p. p \<noteq> [] \<and> list_all is_digit p) parts)"

text \<open>
  The peers for which the body of the loop of \<open>loadPeerStatus\<close> runs to its end: the
  peer is neither \<open>null\<close> nor \<open>undefined\<close>, and its \<open>DNSName\<close>, when it is truthy, is a
  string.
\<close>

fun is_string :: "jsval \<Rightarrow> bool" where
  "is_string (JStr s) = True"
| "is_string v = False"

definition summarisable :: "jsval \<Rightarrow> bool" where
  "summarisable peer =
     (\<not> js_nullish peer \<and>
      (\<not> js_truthy (js_field peer ''DNSName'') \<or> is_string (js_field peer ''DNSName'')))"

text \<open>The status text of the specification's example and the document it denotes.\<close>

definition example_stdout :: string where
  \<open>example_stdout =
     ''{"Peer":{"a":{"DNSName":"node1.tailnetxyz.ts.net.","Online":true,"TailscaleIPs":["100.1.2.3"],"RxBytes":2097152}}}''\<close>

definition example_status :: jsval where
  "example_status =
     JObj [(''Peer'', JObj [(''a'', JObj
       [(''DNSName'', JStr ''node1.tailnetxyz.ts.net.''),
        (''Online'', JBool True),
        (''TailscaleIPs'', JArr [JStr ''100.1.2.3'']),
        (''RxBytes'', JNum 2097152)])])]"

text \<open>A status text with two peers, and the document it denotes.\<close>

definition two_peers_stdout :: string where
  \<open>two_peers_stdout =
     ''{"Peer":{"k1":{"HostName":"alpha","RxBytes":0},"k2":{"DNSName":"beta.ts.net.","RxBytes":3145728,"TxBytes":1048576}}}''\<close>

definition two_peers_entries :: "(string \<times> jsval) list" where
  "two_peers_entries =
     [(''k1'', JObj [(''HostName'', JStr ''alpha''), (''RxBytes'', JNum 0)]),
      (''k2'', JObj [(''DNSName'', JStr ''beta.ts.net.''), (''RxBytes'', JNum 3145728),
                     (''TxBytes'', JNum 1048576)])]"

definition two_peers_status :: jsval where
  "two_peers_status = JObj [(''Peer'', JObj two_peers_entries)]"

section \<open>Properties\<close>

subsection \<open>Substrings\<close>

text \<open>\<open>js_includes\<close> is the test for a contiguous occurrence.\<close>

lemma js_includes_iff: "js_includes s pat \<longleftrightarrow> (\<exists>a b. s = a @ pat @ b)"
proof (induction s)
  case Nil
  then show ?case by auto
next
  case (Cons c cs)
  show ?case
  proof
    assume "js_includes (c # cs) pat"
    then consider "take (length pat) (c # cs) = pat" | "js_includes cs pat" by auto
    then show "\<exists>a b. c # cs = a @ pat @ b"
    proof cases
      case 1
      then have "c # cs = [] @ pat @ drop (length pat) (c # cs)"
        by (metis append_Nil append_take_drop_id)
      then show ?thesis by blast
    next
      case 2
      then obtain a b where "cs = a @ pat @ b" using Cons.IH by blast
      then have "c # cs = (c # a) @ pat @ b" by simp
      then show ?thesis by blast
    qed
  next
    assume "\<exists>a b. c # cs = a @ pat @ b"
    then obtain a b where ab: "c # cs = a @ pat @ b" by blast
    show "js_includes (c # cs) pat"
    proof (cases a)
      case Nil
      then have "take (length pat) (c # cs) = pat" using ab by simp
      then show ?thesis by simp
    next
      case (Cons x a')
      then have "cs = a' @ pat @ b" using ab by simp
      then have "js_includes cs pat" using Cons.IH by blast
      then show ?thesis by simp
    qed
  qed
qed

subsection \<open>Runs of characters\<close>

lemma dropWhile_run:
  "list_all P xs \<Longrightarrow> (case ys of [] \<Rightarrow> True | y # _ \<Rightarrow> \<not> P y) \<Longrightarrow> dropWhile P (xs @ ys) = ys"
  by (induction xs) (auto split: list.splits)

lemma takeWhile_run:
  "list_all P xs \<Longrightarrow> (case ys of [] \<Rightarrow> True | y # _ \<Rightarrow> \<not> P y) \<Longrightarrow> takeWhile P (xs @ ys) = xs"
  by (induction xs) (auto split: list.splits)

lemma run_decompose:
  "list_all P (takeWhile P s) \<and> (case dropWhile P s of [] \<Rightarrow> True | y # _ \<Rightarrow> \<not> P y)"
  by (induction s) (auto split: list.splits)

lemma trim_end_append:
  assumes "a \<noteq> []" and "\<not> P (last a)"
  shows "rev (dropWhile P (rev (a @ b))) = a @ rev (dropWhile P (rev b))"
proof -
  have "dropWhile P (rev a) = rev a"
    using assms by (cases "rev a") (auto simp: last_rev hd_rev)
  then show ?thesis by (simp add: dropWhile_append)
qed

lemma trim_end_head:
  assumes "case b of [] \<Rightarrow> True | c # _ \<Rightarrow> \<not> Q c"
  shows "case rev (dropWhile P (rev b)) of [] \<Rightarrow> True | c # _ \<Rightarrow> \<not> Q c"
proof (cases "rev (dropWhile P (rev b))")
  case Nil
  show ?thesis unfolding Nil by simp
next
  case (Cons c cs)
  have "rev b = takeWhile P (rev b) @ dropWhile P (rev b)" by simp
  then have "b = rev (dropWhile P (rev b)) @ rev (takeWhile P (rev b))"
    by (metis rev_append rev_rev_ident)
  then have "b = c # cs @ rev (takeWhile P (rev b))" using Cons by simp
  then show ?thesis using assms Cons by (cases b) auto
qed

subsection \<open>Decimal notation and \<open>parseInt\<close>\<close>

lemma is_digit_digit_char: "d < 10 \<Longrightarrow> is_digit (digit_char d)"
  by (simp add: is_digit_def digit_char.simps)

lemma digit_val_digit_char: "d < 10 \<Longrightarrow> digit_val (digit_char d) = d"
  by (simp add: digit_val_def digit_char.simps)

lemma digit_char_table:
  "digit_char 0 = CHR ''0''" "digit_char 1 = CHR ''1''" "digit_char 2 = CHR ''2''"
  "digit_char 3 = CHR ''3''" "digit_char 4 = CHR ''4''" "digit_char 5 = CHR ''5''"
  "digit_char 6 = CHR ''6''" "digit_char 7 = CHR ''7''" "digit_char 8 = CHR ''8''"
  "digit_char 9 = CHR ''9''" "digit_char (Suc 0) = CHR ''1''"
  by (simp_all add: digit_char.simps char_of_def bit_iff_odd)

lemmas dec_eval = dec.simps digit_char_table

lemma dec_digits: "list_all is_digit (dec n)"
proof (induction n rule: dec.induct)
  case (1 n)
  show ?case
  proof (cases "n < 10")
    case True
    then show ?thesis
      by (subst dec.simps) (simp add: is_digit_digit_char)
  next
    case False
    then show ?thesis
      using 1 by (subst dec.simps) (simp add: is_digit_digit_char)
  qed
qed

lemma dec_nonempty: "dec n \<noteq> []"
  by (subst dec.simps) simp

lemma dec_value: "foldl (\<lambda>a c. 10 * a + digit_val c) 0 (dec n) = n"
proof (induction n rule: dec.induct)
  case (1 n)
  show ?case
  proof (cases "n < 10")
    case True
    then show ?thesis
      by (subst dec.simps) (simp add: digit_val_digit_char)
  next
    case False
    then show ?thesis
      using 1 by (subst dec.simps) (simp add: digit_val_digit_char)
  qed
qed

lemma digit_not_space: "is_digit c \<Longrightarrow> \<not> js_space c"
  by (auto simp: is_digit_def js_space_def)

lemma digit_not_sign: "is_digit c \<Longrightarrow> c \<noteq> CHR ''+'' \<and> c \<noteq> CHR ''-''"
  by (auto simp: is_digit_def)

text \<open>A natural number below \<open>2^53\<close> is its own Number value.\<close>

lemma round_double_exact: "a < 2 ^ 53 \<Longrightarrow> round_double a = Some a"
proof -
  assume h: "a < 2 ^ 53"
  then have e: "double_exponent a = 0"
    by (subst double_exponent.simps) simp
  have "a < (2::nat) ^ 1024" using h by (rule less_trans) simp
  then show ?thesis by (simp add: round_double_def e)
qed

lemma js_number_exact: "a < 2 ^ 53 \<Longrightarrow> js_number False a = JNum (int a)"
  by (simp add: js_number_def round_double_exact)

lemma parseInt10_dec:
  assumes ws: "list_all js_space ws"
    and rest: "case rest of [] \<Rightarrow> True | c # _ \<Rightarrow> \<not> is_digit c"
  shows "parseInt10 (ws @ dec n @ rest) = Some (js_number False n)"
proof -
  obtain d ds where dd: "dec n = d # ds"
    using dec_nonempty by (cases "dec n") auto
  have dig: "is_digit d" using dec_digits [of n] dd by simp
  have h: "case dec n @ rest of [] \<Rightarrow> True | c # _ \<Rightarrow> \<not> js_space c"
    using dd dig digit_not_space by simp
  have s1: "dropWhile js_space (ws @ dec n @ rest) = dec n @ rest"
    using dropWhile_run [OF ws h] .
  have tk: "takeWhile is_digit (dec n @ rest) = dec n"
    using takeWhile_run [OF dec_digits rest] .
  have s1': "dropWhile js_space (ws @ d # ds @ rest) = d # ds @ rest"
    using s1 by (simp add: dd)
  have tk': "takeWhile is_digit (d # ds @ rest) = d # ds"
    using tk by (simp add: dd)
  have "parseInt10 (ws @ dec n @ rest)
          = Some (js_number False (foldl (\<lambda>a c. 10 * a + digit_val c) 0 (dec n)))"
    using digit_not_sign [OF dig]
    by (simp add: parseInt10_def Let_def dd s1' tk' del: takeWhile.simps)
  then show ?thesis by (simp add: dec_value)
qed

lemma last_dec_not_space: "\<not> js_space (last (dec n))"
proof -
  have "last (dec n) \<in> set (dec n)" using dec_nonempty by simp
  then have "is_digit (last (dec n))" using dec_digits [of n] by (simp add: list_all_iff)
  then show ?thesis by (rule digit_not_space)
qed

lemma js_trim_count_text:
  assumes ws: "list_all js_space ws"
  shows "js_trim (ws @ dec n @ rest) = dec n @ rev (dropWhile js_space (rev rest))"
proof -
  obtain d ds where dd: "dec n = d # ds"
    using dec_nonempty by (cases "dec n") auto
  have "is_digit d" using dec_digits [of n] dd by simp
  then have h: "case dec n @ rest of [] \<Rightarrow> True | c # _ \<Rightarrow> \<not> js_space c"
    using dd digit_not_space by simp
  have "dropWhile js_space (ws @ dec n @ rest) = dec n @ rest"
    using dropWhile_run [OF ws h] .
  then show ?thesis
    using trim_end_append [of "dec n" js_space rest] dec_nonempty last_dec_not_space
    by (simp add: js_trim_def)
qed

lemma count_of_text:
  assumes "list_all js_space ws"
    and "case rest of [] \<Rightarrow> True | c # _ \<Rightarrow> \<not> is_digit c"
    and "n < 2 ^ 53"
  shows "parseInt10_or_0 (js_trim (ws @ dec n @ rest)) = JNum (int n)"
proof -
  have "parseInt10 ([] @ dec n @ rev (dropWhile js_space (rev rest)))
          = Some (js_number False n)"
    by (rule parseInt10_dec) (simp_all add: trim_end_head [OF assms(2)])
  then have "parseInt10 (js_trim (ws @ dec n @ rest)) = Some (JNum (int n))"
    by (simp add: js_trim_count_text [OF assms(1)] js_number_exact [OF assms(3)])
  then show ?thesis
    by (simp add: parseInt10_or_0_def)
qed

lemma format_count: "format_1024mB (JNum (int n)) = dec (n div 1048576) @ '' MB''"
proof -
  have "int n div 1048576 = int (n div 1048576)" by (simp add: zdiv_int)
  then show ?thesis by (simp add: format_1024mB_def render_int_def)
qed

lemma format_zero: "format_1024mB (JNum 0) = ''0 MB''"
  by (simp add: format_1024mB_def render_int_def dec_eval)

lemma format_not_dash: "format_1024mB v \<noteq> ''-''"
proof -
  have "length (format_1024mB v) \<ge> 3" by (simp add: format_1024mB_def)
  then show ?thesis by auto
qed

subsection \<open>The decision of the interface collector\<close>

lemma str_falsy_iff: "\<not> str_truthy r \<longleftrightarrow> r = None \<or> r = Some []"
  by (cases r) auto

lemma loadInterfaceInfo_None_iff:
  "loadInterfaceInfo rxRes txRes mtuRes ipRes = None \<longleftrightarrow>
     \<not> str_truthy rxRes \<and> \<not> str_truthy mtuRes \<and>
     (case ipRes of None \<Rightarrow> True | Some r \<Rightarrow> code r \<noteq> 0)"
  by (simp add: loadInterfaceInfo_def Let_def)

lemma loadInterfaceInfo_fields:
  assumes "loadInterfaceInfo rxRes txRes mtuRes ipRes = Some info"
  shows "name info = ''tailscale0''"
    and "InterfaceInfo.rxBytes info =
           (case rxRes of
              None \<Rightarrow> ''-''
            | Some s \<Rightarrow> if s \<noteq> [] then format_1024mB (parseInt10_or_0 (js_trim s)) else ''-'')"
    and "InterfaceInfo.txBytes info =
           (case txRes of
              None \<Rightarrow> ''-''
            | Some s \<Rightarrow> if s \<noteq> [] then format_1024mB (parseInt10_or_0 (js_trim s)) else ''-'')"
    and "mtu info = (case mtuRes of None \<Rightarrow> ''-'' | Some s \<Rightarrow> if s \<noteq> [] then js_trim s else ''-'')"
    and "ipRes = None \<or> (\<exists>r. ipRes = Some r \<and> code r \<noteq> 0) \<Longrightarrow> ipv4 info = ''-'' \<and> ipv6 info = ''-''"
proof -
  have gate: "\<not> (\<not> str_truthy rxRes \<and> \<not> str_truthy mtuRes \<and>
      (case ipRes of None \<Rightarrow> True | Some r \<Rightarrow> code r \<noteq> 0))"
    using assms loadInterfaceInfo_None_iff [of rxRes txRes mtuRes ipRes] by simp
  note eq = assms [unfolded loadInterfaceInfo_def Let_def if_not_P [OF gate] option.inject, symmetric]
  show "name info = ''tailscale0''" by (subst eq) simp
  show "InterfaceInfo.rxBytes info =
           (case rxRes of
              None \<Rightarrow> ''-''
            | Some s \<Rightarrow> if s \<noteq> [] then format_1024mB (parseInt10_or_0 (js_trim s)) else ''-'')"
    by (subst eq) simp
  show "InterfaceInfo.txBytes info =
           (case txRes of
              None \<Rightarrow> ''-''
            | Some s \<Rightarrow> if s \<noteq> [] then format_1024mB (parseInt10_or_0 (js_trim s)) else ''-'')"
    by (subst eq) simp
  show "mtu info = (case mtuRes of None \<Rightarrow> ''-'' | Some s \<Rightarrow> if s \<noteq> [] then js_trim s else ''-'')"
    by (subst eq) simp
  show "ipv4 info = ''-'' \<and> ipv6 info = ''-''"
    if "ipRes = None \<or> (\<exists>r. ipRes = Some r \<and> code r \<noteq> 0)"
    using that by (subst eq, subst eq) (auto split: option.splits)
qed

text \<open>
  Claim C1, amended. When the four reads return, that is when each of the three file
  reads resolves to a text or to a failure indicator and the address command resolves to a
  result or to nothing, the collector returns what its body computes from the four values,
  and that is the absent outcome if and only if the RX read gave the failure indicator or
  an empty text, and the MTU read gave the failure indicator or an empty text, and the
  address command gave nothing or exited with a code other than zero; the result of the TX
  read plays no part. In every other case it returns a record whose name is the
  interface name and in which each of \<open>rxBytes\<close>, \<open>txBytes\<close> and \<open>mtu\<close> is \<open>-\<close>
  when its own read gave the failure indicator or an empty text, and \<open>ipv4\<close> and
  \<open>ipv6\<close> are \<open>-\<close> when the address command gave nothing or exited with a code other
  than zero. The older view returns the empty list in the first case and the one-element
  list of the same record in the second. A read whose promise is rejected is outside this
  statement.
\<close>

theorem interface_absent_iff:
  "loadInterfaceInfo_promise (Resolves rxRes) (Resolves txRes) (Resolves mtuRes) (Resolves ipRes)
     = Inr (loadInterfaceInfo rxRes txRes mtuRes ipRes)
   \<and> (loadInterfaceInfo rxRes txRes mtuRes ipRes = None \<longleftrightarrow>
      (rxRes = None \<or> rxRes = Some []) \<and> (mtuRes = None \<or> mtuRes = Some []) \<and>
      (ipRes = None \<or> (\<exists>r. ipRes = Some r \<and> code r \<noteq> 0)))
   \<and> (load_interface_js rxRes txRes mtuRes ipRes = [] \<longleftrightarrow>
        loadInterfaceInfo rxRes txRes mtuRes ipRes = None)
   \<and> (\<forall>info. loadInterfaceInfo rxRes txRes mtuRes ipRes = Some info \<longrightarrow>
        load_interface_js rxRes txRes mtuRes ipRes = [info] \<and>
        name info = ''tailscale0'' \<and>
        (rxRes = None \<or> rxRes = Some [] \<longrightarrow> InterfaceInfo.rxBytes info = ''-'') \<and>
        (txRes = None \<or> txRes = Some [] \<longrightarrow> InterfaceInfo.txBytes info = ''-'') \<and>
        (mtuRes = None \<or> mtuRes = Some [] \<longrightarrow> mtu info = ''-'') \<and>
        (ipRes = None \<or> (\<exists>r. ipRes = Some r \<and> code r \<noteq> 0) \<longrightarrow>
           ipv4 info = ''-'' \<and> ipv6 info = ''-''))"
proof (intro conjI allI impI)
  show "loadInterfaceInfo_promise (Resolves rxRes) (Resolves txRes) (Resolves mtuRes)
          (Resolves ipRes) = Inr (loadInterfaceInfo rxRes txRes mtuRes ipRes)"
    by (simp add: loadInterfaceInfo_promise_def)
  show "loadInterfaceInfo rxRes txRes mtuRes ipRes = None \<longleftrightarrow>
      (rxRes = None \<or> rxRes = Some []) \<and> (mtuRes = None \<or> mtuRes = Some []) \<and>
      (ipRes = None \<or> (\<exists>r. ipRes = Some r \<and> code r \<noteq> 0))"
    unfolding loadInterfaceInfo_None_iff str_falsy_iff
    by (cases ipRes) auto
  show "load_interface_js rxRes txRes mtuRes ipRes = [] \<longleftrightarrow>
        loadInterfaceInfo rxRes txRes mtuRes ipRes = None"
    by (simp add: load_interface_js_def split: option.splits)
next
  fix info
  assume p: "loadInterfaceInfo rxRes txRes mtuRes ipRes = Some info"
  show "load_interface_js rxRes txRes mtuRes ipRes = [info]"
    by (simp add: load_interface_js_def p)
  show "name info = ''tailscale0''"
    by (rule loadInterfaceInfo_fields(1) [OF p])
  show "InterfaceInfo.rxBytes info = ''-''" if "rxRes = None \<or> rxRes = Some []"
    using that by (auto simp: loadInterfaceInfo_fields(2) [OF p])
  show "InterfaceInfo.txBytes info = ''-''" if "txRes = None \<or> txRes = Some []"
    using that by (auto simp: loadInterfaceInfo_fields(3) [OF p])
  show "mtu info = ''-''" if "mtuRes = None \<or> mtuRes = Some []"
    using that by (auto simp: loadInterfaceInfo_fields(4) [OF p])
  show "ipv4 info = ''-''" if "ipRes = None \<or> (\<exists>r. ipRes = Some r \<and> code r \<noteq> 0)"
    using loadInterfaceInfo_fields(5) [OF p that] by simp
  show "ipv6 info = ''-''" if "ipRes = None \<or> (\<exists>r. ipRes = Some r \<and> code r \<noteq> 0)"
    using loadInterfaceInfo_fields(5) [OF p that] by simp
qed

theorem interface_absent_iff_witness:
  "loadInterfaceInfo_promise (Resolves None) (Resolves (Some ''4096'')) (Resolves None)
       (Resolves None) = Inr None
   \<and> loadInterfaceInfo None (Some ''4096'') None None = None
   \<and> load_interface_js None (Some ''4096'') None None = []
   \<and> loadInterfaceInfo None None (Some ''1280'')
        (Some \<lparr>code = 1, stdout = None, message = JUndefined\<rparr>)
       = Some \<lparr>name = ''tailscale0'', rxBytes = ''-'', txBytes = ''-'', mtu = ''1280'',
                ipv4 = ''-'', ipv6 = ''-''\<rparr>
   \<and> load_interface_js None None (Some ''1280'')
        (Some \<lparr>code = 1, stdout = None, message = JUndefined\<rparr>)
       = [\<lparr>name = ''tailscale0'', rxBytes = ''-'', txBytes = ''-'', mtu = ''1280'',
                ipv4 = ''-'', ipv6 = ''-''\<rparr>]"
proof -
  note whole = interface_absent_iff [of None "Some ''4096''" None None]
  note absent = whole [THEN conjunct2]
  have a: "loadInterfaceInfo None (Some ''4096'') None None = None"
    using absent [THEN conjunct1] by simp
  have b: "load_interface_js None (Some ''4096'') None None = []"
    using absent [THEN conjunct2, THEN conjunct1] a by simp
  have w: "loadInterfaceInfo_promise (Resolves None) (Resolves (Some ''4096'')) (Resolves None)
       (Resolves None) = Inr None"
    using whole [THEN conjunct1] a by simp
  have c: "loadInterfaceInfo None None (Some ''1280'')
        (Some \<lparr>code = 1, stdout = None, message = JUndefined\<rparr>)
       = Some \<lparr>name = ''tailscale0'', rxBytes = ''-'', txBytes = ''-'', mtu = ''1280'',
                ipv4 = ''-'', ipv6 = ''-''\<rparr>"
    by (simp add: loadInterfaceInfo_def js_trim_def js_space_def)
  note present = interface_absent_iff [of None None "Some ''1280''"
      "Some \<lparr>code = 1, stdout = None, message = JUndefined\<rparr>",
      THEN conjunct2, THEN conjunct2, THEN conjunct2, rule_format, OF c]
  show ?thesis
    using w a b c present [THEN conjunct1] by (intro conjI)
qed

text \<open>
  Two inputs at which the claim as worded fails. An RX read that succeeds with the empty
  text, while the MTU read and the address command fail, gives the absent outcome although
  the RX read did not fail. An address command whose promise is rejected, while the three
  reads give the failure indicator, gives no outcome at all: the rejection leaves the
  collector.
\<close>

theorem interface_absent_iff_counterexample:
  "loadInterfaceInfo (Some []) None None None = None \<and> Some [] \<noteq> (None :: string option)
   \<and> loadInterfaceInfo_promise (Resolves None) (Resolves None) (Resolves None)
        (Rejects (HostError ''Command not found'')) = Inl (HostError ''Command not found'')"
  by (simp add: loadInterfaceInfo_def loadInterfaceInfo_promise_def)


subsection \<open>The byte counters\<close>

lemma js_trim_example_count: "js_trim ''2097152\<newline>'' = ''2097152''"
  by (simp add: js_trim_def js_space_def)

lemma js_trim_example_mtu: "js_trim ''1280\<newline>'' = ''1280''"
  by (simp add: js_trim_def js_space_def)

lemma parseInt10_example_count: "parseInt10 ''2097152'' = Some (JNum 2097152)"
proof -
  have "parseInt10 ''2097152'' = Some (js_number False 2097152)"
    by (simp add: parseInt10_def js_space_def is_digit_def digit_val_def Let_def)
  then show ?thesis by (simp add: js_number_exact)
qed

lemma parseInt10_example_nan: "parseInt10 (js_trim ''n/a'') = None"
  by (simp add: parseInt10_def js_trim_def js_space_def is_digit_def Let_def)

lemma format_example_count: "format_1024mB (JNum 2097152) = ''2 MB''"
  by (simp add: format_1024mB_def render_int_def dec_eval)

text \<open>
  Claim C5, amended. With the host's byte formatter as the specification describes it:
  when the text read from a byte-counter file is the decimal notation of a count \<open>n\<close>
  below \<open>2^53\<close>, after any white space and before anything that is not a digit, the field
  is the formatting of \<open>n\<close>, that is \<open>n\<close> divided by 1048576 followed by \<open>MB\<close>; when the
  text is not empty and \<open>parseInt\<close> finds no number in it, the count is taken as 0 and the
  field is \<open>0 MB\<close>; when the read failed, or gave the empty text, the field is \<open>-\<close>, which
  is not the rendering of zero. A count of \<open>2^53\<close> or more need not be a Number of the
  host language, and then the formatter is given its rounding.
\<close>

theorem byte_counter_formatting:
  assumes "loadInterfaceInfo rxRes txRes mtuRes ipRes = Some info"
  shows
    "(\<forall>ws n rest. rxRes = Some (ws @ dec n @ rest) \<and> list_all js_space ws \<and>
          (case rest of [] \<Rightarrow> True | c # _ \<Rightarrow> \<not> is_digit c) \<and> n < 2 ^ 53 \<longrightarrow>
          InterfaceInfo.rxBytes info = format_1024mB (JNum (int n)) \<and>
          InterfaceInfo.rxBytes info = dec (n div 1048576) @ '' MB'')
     \<and> (\<forall>s. rxRes = Some s \<and> s \<noteq> [] \<and> parseInt10 (js_trim s) = None \<longrightarrow>
          InterfaceInfo.rxBytes info = ''0 MB'')
     \<and> (rxRes = None \<or> rxRes = Some [] \<longrightarrow>
          InterfaceInfo.rxBytes info = ''-'' \<and>
          InterfaceInfo.rxBytes info \<noteq> format_1024mB (JNum 0))
     \<and> (\<forall>ws n rest. txRes = Some (ws @ dec n @ rest) \<and> list_all js_space ws \<and>
          (case rest of [] \<Rightarrow> True | c # _ \<Rightarrow> \<not> is_digit c) \<and> n < 2 ^ 53 \<longrightarrow>
          InterfaceInfo.txBytes info = format_1024mB (JNum (int n)) \<and>
          InterfaceInfo.txBytes info = dec (n div 1048576) @ '' MB'')
     \<and> (\<forall>s. txRes = Some s \<and> s \<noteq> [] \<and> parseInt10 (js_trim s) = None \<longrightarrow>
          InterfaceInfo.txBytes info = ''0 MB'')
     \<and> (txRes = None \<or> txRes = Some [] \<longrightarrow>
          InterfaceInfo.txBytes info = ''-'' \<and>
          InterfaceInfo.txBytes info \<noteq> format_1024mB (JNum 0))"
proof -
  note rx = loadInterfaceInfo_fields(2) [OF assms]
  note tx = loadInterfaceInfo_fields(3) [OF assms]
  have count: "(case Some (ws @ dec n @ rest) of
                  None \<Rightarrow> ''-''
                | Some s \<Rightarrow>
                    if s \<noteq> [] then format_1024mB (parseInt10_or_0 (js_trim s)) else ''-'')
                 = format_1024mB (JNum (int n))"
    if "list_all js_space ws" and "case rest of [] \<Rightarrow> True | c # _ \<Rightarrow> \<not> is_digit c"
      and "n < 2 ^ 53"
    for ws n rest
  proof -
    have "ws @ dec n @ rest \<noteq> []" using dec_nonempty by simp
    then have "(case Some (ws @ dec n @ rest) of
                  None \<Rightarrow> ''-''
                | Some s \<Rightarrow>
                    if s \<noteq> [] then format_1024mB (parseInt10_or_0 (js_trim s)) else ''-'')
             = format_1024mB (parseInt10_or_0 (js_trim (ws @ dec n @ rest)))"
      by (simp only: option.case if_P not_False_eq_True if_True)
    also have "\<dots> = format_1024mB (JNum (int n))"
      by (simp only: count_of_text [OF that])
    finally show ?thesis .
  qed
  have nan: "(case Some s of
                None \<Rightarrow> ''-''
              | Some s \<Rightarrow>
                  if s \<noteq> [] then format_1024mB (parseInt10_or_0 (js_trim s)) else ''-'')
               = ''0 MB''"
    if "s \<noteq> []" and "parseInt10 (js_trim s) = None" for s
    using that by (simp add: parseInt10_or_0_def format_zero)
  have dash: "(case r of
                None \<Rightarrow> ''-''
              | Some s \<Rightarrow>
                  if s \<noteq> [] then format_1024mB (parseInt10_or_0 (js_trim s)) else ''-'')
               = ''-''"
    if "r = None \<or> r = Some []" for r
    using that by auto
  have zero: "''-'' \<noteq> format_1024mB (JNum 0)" by (simp add: format_zero)
  show ?thesis
  proof (intro conjI allI impI)
    fix ws n rest
    assume h: "rxRes = Some (ws @ dec n @ rest) \<and> list_all js_space ws \<and>
          (case rest of [] \<Rightarrow> True | c # _ \<Rightarrow> \<not> is_digit c) \<and> n < 2 ^ 53"
    from h have r: "rxRes = Some (ws @ dec n @ rest)" by blast
    from h have w: "list_all js_space ws" by blast
    from h have d: "case rest of [] \<Rightarrow> True | c # _ \<Rightarrow> \<not> is_digit c" by blast
    from h have b: "n < 2 ^ 53" by blast
    show e: "InterfaceInfo.rxBytes info = format_1024mB (JNum (int n))"
      unfolding rx r by (rule count [OF w d b])
    show "InterfaceInfo.rxBytes info = dec (n div 1048576) @ '' MB''"
      unfolding e by (rule format_count)
  next
    fix s
    assume h: "rxRes = Some s \<and> s \<noteq> [] \<and> parseInt10 (js_trim s) = None"
    from h have r: "rxRes = Some s" by blast
    from h have a: "s \<noteq> []" by blast
    from h have b: "parseInt10 (js_trim s) = None" by blast
    show "InterfaceInfo.rxBytes info = ''0 MB''"
      unfolding rx r by (rule nan [OF a b])
  next
    assume h: "rxRes = None \<or> rxRes = Some []"
    show "InterfaceInfo.rxBytes info = ''-''"
      unfolding rx by (rule dash [OF h])
    show "InterfaceInfo.rxBytes info \<noteq> format_1024mB (JNum 0)"
      unfolding rx dash [OF h] by (rule zero)
  next
    fix ws n rest
    assume h: "txRes = Some (ws @ dec n @ rest) \<and> list_all js_space ws \<and>
          (case rest of [] \<Rightarrow> True | c # _ \<Rightarrow> \<not> is_digit c) \<and> n < 2 ^ 53"
    from h have r: "txRes = Some (ws @ dec n @ rest)" by blast
    from h have w: "list_all js_space ws" by blast
    from h have d: "case rest of [] \<Rightarrow> True | c # _ \<Rightarrow> \<not> is_digit c" by blast
    from h have b: "n < 2 ^ 53" by blast
    show e: "InterfaceInfo.txBytes info = format_1024mB (JNum (int n))"
      unfolding tx r by (rule count [OF w d b])
    show "InterfaceInfo.txBytes info = dec (n div 1048576) @ '' MB''"
      unfolding e by (rule format_count)
  next
    fix s
    assume h: "txRes = Some s \<and> s \<noteq> [] \<and> parseInt10 (js_trim s) = None"
    from h have r: "txRes = Some s" by blast
    from h have a: "s \<noteq> []" by blast
    from h have b: "parseInt10 (js_trim s) = None" by blast
    show "InterfaceInfo.txBytes info = ''0 MB''"
      unfolding tx r by (rule nan [OF a b])
  next
    assume h: "txRes = None \<or> txRes = Some []"
    show "InterfaceInfo.txBytes info = ''-''"
      unfolding tx by (rule dash [OF h])
    show "InterfaceInfo.txBytes info \<noteq> format_1024mB (JNum 0)"
      unfolding tx dash [OF h] by (rule zero)
  qed
qed

theorem byte_counter_formatting_witness:
  "loadInterfaceInfo (Some ''2097152\<newline>'') (Some ''n/a'') (Some ''1280\<newline>'') None
     = Some \<lparr>name = ''tailscale0'', rxBytes = ''2 MB'', txBytes = ''0 MB'', mtu = ''1280'',
              ipv4 = ''-'', ipv6 = ''-''\<rparr>
   \<and> InterfaceInfo.rxBytes \<lparr>name = ''tailscale0'', rxBytes = ''2 MB'', txBytes = ''0 MB'',
              mtu = ''1280'', ipv4 = ''-'', ipv6 = ''-''\<rparr> = dec (2097152 div 1048576) @ '' MB''
   \<and> (2097152 :: nat) < 2 ^ 53
   \<and> parseInt10 (js_trim ''n/a'') = None"
proof -
  have e: "loadInterfaceInfo (Some ''2097152\<newline>'') (Some ''n/a'') (Some ''1280\<newline>'') None
     = Some \<lparr>name = ''tailscale0'', rxBytes = ''2 MB'', txBytes = ''0 MB'', mtu = ''1280'',
              ipv4 = ''-'', ipv6 = ''-''\<rparr>"
    by (simp add: loadInterfaceInfo_def js_trim_example_count js_trim_example_mtu
        parseInt10_example_count parseInt10_example_nan parseInt10_or_0_def
        format_example_count format_zero)
  have b: "(2097152 :: nat) < 2 ^ 53" by simp
  have d: "Some ''2097152\<newline>'' = Some ([] @ dec 2097152 @ [CHR 0x0A]) \<and> list_all js_space [] \<and>
          (case [CHR 0x0A] of [] \<Rightarrow> True | c # _ \<Rightarrow> \<not> is_digit c) \<and> (2097152 :: nat) < 2 ^ 53"
    by (simp add: dec_eval is_digit_def)
  note t = byte_counter_formatting [OF e, THEN conjunct1, rule_format, of "[]" 2097152 "[CHR 0x0A]"]
  show ?thesis
    using e t [OF d, THEN conjunct2] b parseInt10_example_nan by (intro conjI)
qed

text \<open>
  Two inputs at which the claim as worded fails. An RX read that succeeds with the empty
  text, a missing value, gives \<open>-\<close> and not the formatting of zero. The count
  9007199255789567, read from its 16 digits, becomes the Number 9007199255789568: the field
  is \<open>8589934593 MB\<close>, and the count divided by 1048576 is 8589934592.
\<close>

theorem byte_counter_formatting_counterexample:
  "loadInterfaceInfo (Some []) None (Some ''1280'') None
     = Some \<lparr>name = ''tailscale0'', rxBytes = ''-'', txBytes = ''-'', mtu = ''1280'',
              ipv4 = ''-'', ipv6 = ''-''\<rparr>
   \<and> format_1024mB (JNum 0) = ''0 MB''
   \<and> loadInterfaceInfo (Some ''9007199255789567'') None None None
     = Some \<lparr>name = ''tailscale0'', rxBytes = ''8589934593 MB'', txBytes = ''-'', mtu = ''-'',
              ipv4 = ''-'', ipv6 = ''-''\<rparr>
   \<and> dec 9007199255789567 = ''9007199255789567''
   \<and> format_1024mB (JNum 9007199255789567) = ''8589934592 MB''"
proof -
  have a: "loadInterfaceInfo (Some []) None (Some ''1280'') None
     = Some \<lparr>name = ''tailscale0'', rxBytes = ''-'', txBytes = ''-'', mtu = ''1280'',
              ipv4 = ''-'', ipv6 = ''-''\<rparr>"
    by (simp add: loadInterfaceInfo_def js_trim_def js_space_def)
  have t: "js_trim ''9007199255789567'' = ''9007199255789567''"
    by (simp add: js_trim_def js_space_def)
  have p: "parseInt10 ''9007199255789567'' = Some (js_number False 9007199255789567)"
    by (simp add: parseInt10_def js_space_def is_digit_def digit_val_def Let_def)
  have r: "js_number False 9007199255789567 = JNum 9007199255789568"
    by (simp add: js_number_def round_double_def double_exponent.simps Let_def)
  have f: "format_1024mB (JNum 9007199255789568) = ''8589934593 MB''"
    by (simp add: format_1024mB_def render_int_def dec_eval)
  have c: "loadInterfaceInfo (Some ''9007199255789567'') None None None
     = Some \<lparr>name = ''tailscale0'', rxBytes = ''8589934593 MB'', txBytes = ''-'', mtu = ''-'',
              ipv4 = ''-'', ipv6 = ''-''\<rparr>"
    by (simp add: loadInterfaceInfo_def t p r f parseInt10_or_0_def)
  have d: "dec 9007199255789567 = ''9007199255789567''"
    by (simp add: dec_eval)
  have g: "format_1024mB (JNum 9007199255789567) = ''8589934592 MB''"
    by (simp add: format_1024mB_def render_int_def dec_eval)
  show ?thesis
    using a format_zero c d g by (intro conjI)
qed

subsection \<open>The address patterns\<close>

text \<open>
  The capture of \<open>match_marker\<close> is the capture of the regular expression: a line
  matches with the token \<open>tok\<close> exactly when it is white space, the marker, at least one
  white-space character, \<open>tok\<close> and a remainder, where \<open>tok\<close> is a non-empty run of
  characters of the class that the remainder does not continue.
\<close>

lemma match_marker_iff:
  assumes m: "case marker of [] \<Rightarrow> False | c # _ \<Rightarrow> \<not> js_space c"
    and cls: "\<And>c. cls c \<Longrightarrow> \<not> js_space c"
  shows "match_marker marker cls line = Some tok \<longleftrightarrow>
     (\<exists>ws1 ws2 rest. line = ws1 @ marker @ ws2 @ tok @ rest \<and>
        list_all js_space ws1 \<and> ws2 \<noteq> [] \<and> list_all js_space ws2 \<and>
        tok \<noteq> [] \<and> list_all cls tok \<and> (case rest of [] \<Rightarrow> True | c # _ \<Rightarrow> \<not> cls c))"
proof
  assume h: "match_marker marker cls line = Some tok"
  define s1 where "s1 = dropWhile js_space line"
  define s2 where "s2 = drop (length marker) s1"
  define s3 where "s3 = dropWhile js_space s2"
  from h have a: "take (length marker) s1 = marker" and b: "takeWhile js_space s2 \<noteq> []"
    and c: "tok = takeWhile cls s3" and d: "tok \<noteq> []"
    by (auto simp: match_marker_def Let_def s1_def s2_def s3_def split: if_splits)
  have "line = takeWhile js_space line @ s1" by (simp add: s1_def)
  also have "s1 = marker @ s2" using a by (metis append_take_drop_id s2_def)
  also have "s2 = takeWhile js_space s2 @ s3" by (simp add: s3_def)
  also have "s3 = tok @ dropWhile cls s3" by (simp add: c)
  finally have "line = takeWhile js_space line @ marker @ takeWhile js_space s2 @ tok
                  @ dropWhile cls s3" .
  moreover have "list_all js_space (takeWhile js_space line)"
    "list_all js_space (takeWhile js_space s2)"
    "list_all cls tok" "case dropWhile cls s3 of [] \<Rightarrow> True | c # _ \<Rightarrow> \<not> cls c"
    using run_decompose c by blast+
  ultimately show "\<exists>ws1 ws2 rest. line = ws1 @ marker @ ws2 @ tok @ rest \<and>
        list_all js_space ws1 \<and> ws2 \<noteq> [] \<and> list_all js_space ws2 \<and>
        tok \<noteq> [] \<and> list_all cls tok \<and> (case rest of [] \<Rightarrow> True | c # _ \<Rightarrow> \<not> cls c)"
    using b d by blast
next
  assume "\<exists>ws1 ws2 rest. line = ws1 @ marker @ ws2 @ tok @ rest \<and>
        list_all js_space ws1 \<and> ws2 \<noteq> [] \<and> list_all js_space ws2 \<and>
        tok \<noteq> [] \<and> list_all cls tok \<and> (case rest of [] \<Rightarrow> True | c # _ \<Rightarrow> \<not> cls c)"
  then obtain ws1 ws2 rest where line: "line = ws1 @ marker @ ws2 @ tok @ rest"
    and w1: "list_all js_space ws1" and w2: "ws2 \<noteq> []" "list_all js_space ws2"
    and t: "tok \<noteq> []" "list_all cls tok"
    and r: "case rest of [] \<Rightarrow> True | c # _ \<Rightarrow> \<not> cls c"
    by blast
  have m': "case marker @ ws2 @ tok @ rest of [] \<Rightarrow> True | c # _ \<Rightarrow> \<not> js_space c"
    using m by (cases marker) auto
  have s1: "dropWhile js_space line = marker @ ws2 @ tok @ rest"
    unfolding line using dropWhile_run [OF w1 m'] .
  have t': "case tok @ rest of [] \<Rightarrow> True | c # _ \<Rightarrow> \<not> js_space c"
    using t cls by (cases tok) auto
  have s3: "dropWhile js_space (ws2 @ tok @ rest) = tok @ rest"
    using dropWhile_run [OF w2(2) t'] .
  have s3': "takeWhile js_space (ws2 @ tok @ rest) = ws2"
    using takeWhile_run [OF w2(2) t'] .
  have tk: "takeWhile cls (tok @ rest) = tok"
    using takeWhile_run [OF t(2) r] .
  show "match_marker marker cls line = Some tok"
    by (simp add: match_marker_def Let_def s1 s3 s3' tk w2 t)
qed

lemma match_marker_nonempty: "match_marker m cls l = Some t \<Longrightarrow> t \<noteq> []"
  by (auto simp: match_marker_def Let_def split: if_splits)

lemma dotted_not_space: "dotted_class c \<Longrightarrow> \<not> js_space c"
  by (auto simp: dotted_class_def is_digit_def js_space_def)

lemma hex_colon_not_space: "hex_colon_class c \<Longrightarrow> \<not> js_space c"
  by (auto simp: hex_colon_class_def is_digit_def js_space_def)

lemma ipv4Match_iff:
  "ipv4Match line = Some tok \<longleftrightarrow>
     (\<exists>ws1 ws2 rest. line = ws1 @ ''inet'' @ ws2 @ tok @ rest \<and>
        list_all js_space ws1 \<and> ws2 \<noteq> [] \<and> list_all js_space ws2 \<and>
        tok \<noteq> [] \<and> list_all dotted_class tok \<and>
        (case rest of [] \<Rightarrow> True | c # _ \<Rightarrow> \<not> dotted_class c))"
  unfolding ipv4Match_def
  by (rule match_marker_iff) (simp add: js_space_def, rule dotted_not_space)

lemma ipv6Match_iff:
  "ipv6Match line = Some tok \<longleftrightarrow>
     (\<exists>ws1 ws2 rest. line = ws1 @ ''inet6'' @ ws2 @ tok @ rest \<and>
        list_all js_space ws1 \<and> ws2 \<noteq> [] \<and> list_all js_space ws2 \<and>
        tok \<noteq> [] \<and> list_all hex_colon_class tok \<and>
        (case rest of [] \<Rightarrow> True | c # _ \<Rightarrow> \<not> hex_colon_class c))"
  unfolding ipv6Match_def
  by (rule match_marker_iff) (simp add: js_space_def, rule hex_colon_not_space)

subsection \<open>The loop over the lines\<close>

lemma scan_lines_ipv4_kept:
  "str_truthy v4 \<Longrightarrow> fst (scan_lines ls (v4, v6)) = v4"
  by (induction ls arbitrary: v6) (auto simp: Let_def split: option.splits)

lemma scan_lines_ipv4_none:
  "\<forall>l \<in> set ls. ipv4Match l = None \<Longrightarrow> fst (scan_lines ls (v4, v6)) = v4"
  by (induction ls arbitrary: v6) (auto simp: Let_def split: option.splits)

lemma scan_lines_ipv4_first:
  assumes "\<not> str_truthy v4" and "\<forall>p \<in> set pre. ipv4Match p = None"
    and "ipv4Match l = Some tok"
  shows "fst (scan_lines (pre @ l # post) (v4, v6)) = Some tok"
  using assms(2)
proof (induction pre arbitrary: v6)
  case Nil
  have "tok \<noteq> []"
    using assms(3) by (auto simp: ipv4Match_def dest: match_marker_nonempty)
  then show ?case
    using assms(1,3) by (simp add: Let_def scan_lines_ipv4_kept)
next
  case (Cons p pre)
  then show ?case by (simp add: Let_def)
qed

lemma scan_lines_ipv6_kept:
  "str_truthy v6 \<Longrightarrow> snd (scan_lines ls (v4, v6)) = v6"
  by (induction ls arbitrary: v4) (auto simp: Let_def split: option.splits)

lemma scan_lines_ipv6_none:
  "\<forall>l \<in> set ls. (case ipv6Match l of None \<Rightarrow> True | Some t \<Rightarrow> startsWith t ''fe80'')
     \<Longrightarrow> snd (scan_lines ls (v4, v6)) = v6"
  by (induction ls arbitrary: v4) (auto simp: Let_def split: option.splits)

lemma scan_lines_ipv6_first:
  assumes "\<not> str_truthy v6"
    and "\<forall>p \<in> set pre. (case ipv6Match p of None \<Rightarrow> True | Some t \<Rightarrow> startsWith t ''fe80'')"
    and "ipv6Match l = Some tok" and "\<not> startsWith tok ''fe80''"
  shows "snd (scan_lines (pre @ l # post) (v4, v6)) = Some tok"
  using assms(2)
proof (induction pre arbitrary: v4)
  case Nil
  have "tok \<noteq> []"
    using assms(3) by (auto simp: ipv6Match_def dest: match_marker_nonempty)
  then show ?case
    using assms(1,3,4) by (simp add: Let_def scan_lines_ipv6_kept)
next
  case (Cons p pre)
  then show ?case by (auto simp: Let_def split: option.splits)
qed

lemma js_split_empty: "js_split sep [] = [[]]"
  by simp

lemma loadInterfaceInfo_addresses:
  assumes "code r = 0" and "stdout r = Some out"
  shows "\<exists>info. loadInterfaceInfo rxRes txRes mtuRes (Some r) = Some info \<and>
           ipv4 info = or_dash (fst (scan_lines (js_split (CHR 0x0A) out) (None, None))) \<and>
           ipv6 info = or_dash (snd (scan_lines (js_split (CHR 0x0A) out) (None, None)))"
proof (cases "out = []")
  case True
  have "ipv4Match [] = None" "ipv6Match [] = None"
    by (simp_all add: ipv4Match_def ipv6Match_def match_marker_def)
  then have "scan_lines (js_split (CHR 0x0A) out) (None, None) = (None, None)"
    using True by (simp add: Let_def)
  then show ?thesis
    using assms True by (simp add: loadInterfaceInfo_def)
next
  case False
  then show ?thesis
    using assms by (simp add: loadInterfaceInfo_def Let_def)
qed

subsection \<open>The extracted addresses\<close>

lemma ipv4Match_example:
  "ipv4Match ''    inet 100.80.52.1/32 scope global tailscale0'' = Some ''100.80.52.1''"
  by (simp add: ipv4Match_def match_marker_def js_space_def dotted_class_def is_digit_def)

lemma ipv6Match_example_link_local:
  "ipv6Match ''    inet6 fe80::1/64 scope link'' = Some ''fe80::1''"
  by (simp add: ipv6Match_def match_marker_def js_space_def hex_colon_class_def is_digit_def)

lemma ipv6Match_example_global:
  "ipv6Match ''    inet6 fd7a:115c:a1e0::9f01:1560/128 scope global''
     = Some ''fd7a:115c:a1e0::9f01:1560''"
  by (simp add: ipv6Match_def match_marker_def js_space_def hex_colon_class_def is_digit_def)

text \<open>
  Claim C7, amended. For every output of an address command that exited with code 0, the
  extracted IPv4 address is the token of the first line, in order, that matches the
  pattern, and \<open>-\<close> when no line matches. A line matches when it is optional white space,
  the marker \<open>inet\<close>, white space, and then a non-empty run of decimal digits and dots;
  the token is the longest such run, whether or not it is a dotted quad. For the line
  \<open>    inet 100.80.52.1/32 scope global tailscale0\<close> the token is \<open>100.80.52.1\<close>.
\<close>

theorem ipv4_first_match:
  assumes "code r = 0" and "stdout r = Some out"
  shows "(\<exists>info. loadInterfaceInfo rxRes txRes mtuRes (Some r) = Some info \<and>
            ((\<forall>l \<in> set (js_split (CHR 0x0A) out). ipv4Match l = None) \<longrightarrow> ipv4 info = ''-'') \<and>
            (\<forall>pre l post tok.
               js_split (CHR 0x0A) out = pre @ l # post \<and>
               (\<forall>p \<in> set pre. ipv4Match p = None) \<and> ipv4Match l = Some tok \<longrightarrow>
               ipv4 info = tok))
       \<and> (\<forall>line tok. ipv4Match line = Some tok \<longleftrightarrow>
            (\<exists>ws1 ws2 rest. line = ws1 @ ''inet'' @ ws2 @ tok @ rest \<and>
               list_all js_space ws1 \<and> ws2 \<noteq> [] \<and> list_all js_space ws2 \<and>
               tok \<noteq> [] \<and> list_all dotted_class tok \<and>
               (case rest of [] \<Rightarrow> True | c # _ \<Rightarrow> \<not> dotted_class c)))
       \<and> ipv4Match ''    inet 100.80.52.1/32 scope global tailscale0'' = Some ''100.80.52.1''"
proof -
  obtain info where p: "loadInterfaceInfo rxRes txRes mtuRes (Some r) = Some info"
    and v4: "ipv4 info = or_dash (fst (scan_lines (js_split (CHR 0x0A) out) (None, None)))"
    using loadInterfaceInfo_addresses [OF assms] by blast
  have none: "ipv4 info = ''-''" if "\<forall>l \<in> set (js_split (CHR 0x0A) out). ipv4Match l = None"
    using scan_lines_ipv4_none [OF that] by (simp add: v4)
  have first: "ipv4 info = tok"
    if "js_split (CHR 0x0A) out = pre @ l # post \<and>
        (\<forall>p \<in> set pre. ipv4Match p = None) \<and> ipv4Match l = Some tok"
    for pre l post tok
  proof -
    from that have s: "js_split (CHR 0x0A) out = pre @ l # post" by blast
    from that have n: "\<forall>p \<in> set pre. ipv4Match p = None" by blast
    from that have m: "ipv4Match l = Some tok" by blast
    have "tok \<noteq> []" using m by (auto simp: ipv4Match_def dest: match_marker_nonempty)
    moreover have "fst (scan_lines (pre @ l # post) (None, None)) = Some tok"
      by (rule scan_lines_ipv4_first [OF _ n m]) simp
    ultimately show ?thesis by (simp add: v4 s)
  qed
  show ?thesis
    using p none first ipv4Match_iff ipv4Match_example by blast
qed

theorem ipv4_first_match_witness:
  "\<exists>info. loadInterfaceInfo None None None
      (Some \<lparr>code = 0,
              stdout = Some ''    link/none\<newline>    inet 100.80.52.1/32 scope global tailscale0\<newline>    inet 10.0.0.9/8 scope global'',
              message = JUndefined\<rparr>) = Some info
     \<and> ipv4 info = ''100.80.52.1''"
proof -
  have s: "js_split (CHR 0x0A)
      ''    link/none\<newline>    inet 100.80.52.1/32 scope global tailscale0\<newline>    inet 10.0.0.9/8 scope global''
      = [''    link/none''] @ ''    inet 100.80.52.1/32 scope global tailscale0''
          # [''    inet 10.0.0.9/8 scope global'']"
    by simp
  have n: "\<forall>p \<in> set [''    link/none'']. ipv4Match p = None"
    by (simp add: ipv4Match_def match_marker_def js_space_def)
  from ipv4_first_match [of "\<lparr>code = 0,
              stdout = Some ''    link/none\<newline>    inet 100.80.52.1/32 scope global tailscale0\<newline>    inet 10.0.0.9/8 scope global'',
              message = JUndefined\<rparr>"
        "''    link/none\<newline>    inet 100.80.52.1/32 scope global tailscale0\<newline>    inet 10.0.0.9/8 scope global''"
        None None None, THEN conjunct1]
  obtain info where p: "loadInterfaceInfo None None None
      (Some \<lparr>code = 0,
              stdout = Some ''    link/none\<newline>    inet 100.80.52.1/32 scope global tailscale0\<newline>    inet 10.0.0.9/8 scope global'',
              message = JUndefined\<rparr>) = Some info"
    and f: "\<And>pre l post tok. js_split (CHR 0x0A)
      ''    link/none\<newline>    inet 100.80.52.1/32 scope global tailscale0\<newline>    inet 10.0.0.9/8 scope global''
         = pre @ l # post \<Longrightarrow>
       \<forall>p \<in> set pre. ipv4Match p = None \<Longrightarrow> ipv4Match l = Some tok \<Longrightarrow> ipv4 info = tok"
    by auto
  have "ipv4 info = ''100.80.52.1''"
    by (rule f [OF s n ipv4Match_example])
  then show ?thesis using p by blast
qed

theorem ipv4_first_match_counterexample:
  "loadInterfaceInfo None None None
      (Some \<lparr>code = 0,
              stdout = Some ''    inet 10.0/8 scope global\<newline>    inet 100.80.52.1/32 scope global tailscale0'',
              message = JUndefined\<rparr>)
     = Some \<lparr>name = ''tailscale0'', rxBytes = ''-'', txBytes = ''-'', mtu = ''-'',
              ipv4 = ''10.0'', ipv6 = ''-''\<rparr>
   \<and> \<not> dotted_quad ''10.0''
   \<and> dotted_quad ''100.80.52.1''"
proof -
  have m1: "ipv4Match ''    inet 10.0/8 scope global'' = Some ''10.0''"
    by (simp add: ipv4Match_def match_marker_def js_space_def dotted_class_def is_digit_def)
  have m2: "ipv6Match ''    inet 10.0/8 scope global'' = None"
    "ipv6Match ''    inet 100.80.52.1/32 scope global tailscale0'' = None"
    by (simp_all add: ipv6Match_def match_marker_def js_space_def)
  have s: "js_split (CHR 0x0A)
      ''    inet 10.0/8 scope global\<newline>    inet 100.80.52.1/32 scope global tailscale0''
      = [''    inet 10.0/8 scope global'', ''    inet 100.80.52.1/32 scope global tailscale0'']"
    by simp
  have "scan_lines [''    inet 10.0/8 scope global'',
          ''    inet 100.80.52.1/32 scope global tailscale0''] (None, None) = (Some ''10.0'', None)"
    by (simp add: m1 m2 ipv4Match_example)
  then have "loadInterfaceInfo None None None
      (Some \<lparr>code = 0,
              stdout = Some ''    inet 10.0/8 scope global\<newline>    inet 100.80.52.1/32 scope global tailscale0'',
              message = JUndefined\<rparr>)
     = Some \<lparr>name = ''tailscale0'', rxBytes = ''-'', txBytes = ''-'', mtu = ''-'',
              ipv4 = ''10.0'', ipv6 = ''-''\<rparr>"
    by (simp add: loadInterfaceInfo_def s del: js_split.simps)
  moreover have "\<not> dotted_quad ''10.0''" "dotted_quad ''100.80.52.1''"
    by (simp_all add: dotted_quad_def is_digit_def)
  ultimately show ?thesis by blast
qed

text \<open>
  Claim C8, amended. For every output of an address command that exited with code 0, the extracted
  IPv6 address is the token of the first line, in order, that matches the pattern with a
  token that does not begin with \<open>fe80\<close>, and \<open>-\<close> when there is no such line. A line
  matches when it is optional white space, the marker \<open>inet6\<close>, white space, and then a
  non-empty run of hexadecimal digits and colons; the token is the longest such run. The
  line \<open>inet6 fe80::1/64 scope link\<close> is skipped, and a following line
  \<open>inet6 fd7a:115c:a1e0::9f01:1560/128 scope global\<close> gives
  \<open>fd7a:115c:a1e0::9f01:1560\<close>.
\<close>

theorem ipv6_first_global_match:
  assumes "code r = 0" and "stdout r = Some out"
  shows "(\<exists>info. loadInterfaceInfo rxRes txRes mtuRes (Some r) = Some info \<and>
            ((\<forall>l \<in> set (js_split (CHR 0x0A) out).
                 case ipv6Match l of None \<Rightarrow> True | Some t \<Rightarrow> startsWith t ''fe80'') \<longrightarrow>
               ipv6 info = ''-'') \<and>
            (\<forall>pre l post tok.
               js_split (CHR 0x0A) out = pre @ l # post \<and>
               (\<forall>p \<in> set pre.
                  case ipv6Match p of None \<Rightarrow> True | Some t \<Rightarrow> startsWith t ''fe80'') \<and>
               ipv6Match l = Some tok \<and> \<not> startsWith tok ''fe80'' \<longrightarrow>
               ipv6 info = tok))
       \<and> (\<forall>line tok. ipv6Match line = Some tok \<longleftrightarrow>
            (\<exists>ws1 ws2 rest. line = ws1 @ ''inet6'' @ ws2 @ tok @ rest \<and>
               list_all js_space ws1 \<and> ws2 \<noteq> [] \<and> list_all js_space ws2 \<and>
               tok \<noteq> [] \<and> list_all hex_colon_class tok \<and>
               (case rest of [] \<Rightarrow> True | c # _ \<Rightarrow> \<not> hex_colon_class c)))
       \<and> ipv6Match ''    inet6 fe80::1/64 scope link'' = Some ''fe80::1''
       \<and> startsWith ''fe80::1'' ''fe80''
       \<and> ipv6Match ''    inet6 fd7a:115c:a1e0::9f01:1560/128 scope global''
            = Some ''fd7a:115c:a1e0::9f01:1560''
       \<and> \<not> startsWith ''fd7a:115c:a1e0::9f01:1560'' ''fe80''"
proof -
  obtain info where p: "loadInterfaceInfo rxRes txRes mtuRes (Some r) = Some info"
    and v6: "ipv6 info = or_dash (snd (scan_lines (js_split (CHR 0x0A) out) (None, None)))"
    using loadInterfaceInfo_addresses [OF assms] by blast
  have none: "ipv6 info = ''-''"
    if "\<forall>l \<in> set (js_split (CHR 0x0A) out).
          case ipv6Match l of None \<Rightarrow> True | Some t \<Rightarrow> startsWith t ''fe80''"
    using scan_lines_ipv6_none [OF that] by (simp add: v6)
  have first: "ipv6 info = tok"
    if "js_split (CHR 0x0A) out = pre @ l # post \<and>
        (\<forall>p \<in> set pre. case ipv6Match p of None \<Rightarrow> True | Some t \<Rightarrow> startsWith t ''fe80'') \<and>
        ipv6Match l = Some tok \<and> \<not> startsWith tok ''fe80''"
    for pre l post tok
  proof -
    from that have s: "js_split (CHR 0x0A) out = pre @ l # post" by blast
    from that have n: "\<forall>p \<in> set pre.
        case ipv6Match p of None \<Rightarrow> True | Some t \<Rightarrow> startsWith t ''fe80''" by blast
    from that have m: "ipv6Match l = Some tok" by blast
    from that have g: "\<not> startsWith tok ''fe80''" by blast
    have "tok \<noteq> []" using m by (auto simp: ipv6Match_def dest: match_marker_nonempty)
    moreover have "snd (scan_lines (pre @ l # post) (None, None)) = Some tok"
      by (rule scan_lines_ipv6_first [OF _ n m g]) simp
    ultimately show ?thesis by (simp add: v6 s)
  qed
  have sw: "startsWith ''fe80::1'' ''fe80''" "\<not> startsWith ''fd7a:115c:a1e0::9f01:1560'' ''fe80''"
    by (simp_all add: startsWith_def)
  show ?thesis
    using p none first ipv6Match_iff ipv6Match_example_link_local ipv6Match_example_global sw
    by blast
qed

theorem ipv6_first_global_match_witness:
  "\<exists>info. loadInterfaceInfo None None None
      (Some \<lparr>code = 0,
              stdout = Some ''    inet6 fe80::1/64 scope link\<newline>    inet6 fd7a:115c:a1e0::9f01:1560/128 scope global'',
              message = JUndefined\<rparr>) = Some info
     \<and> ipv6 info = ''fd7a:115c:a1e0::9f01:1560''"
proof -
  have s: "js_split (CHR 0x0A)
      ''    inet6 fe80::1/64 scope link\<newline>    inet6 fd7a:115c:a1e0::9f01:1560/128 scope global''
      = [''    inet6 fe80::1/64 scope link'']
          @ ''    inet6 fd7a:115c:a1e0::9f01:1560/128 scope global'' # []"
    by simp
  have n: "\<forall>p \<in> set [''    inet6 fe80::1/64 scope link''].
             case ipv6Match p of None \<Rightarrow> True | Some t \<Rightarrow> startsWith t ''fe80''"
    by (simp add: ipv6Match_example_link_local startsWith_def)
  have g: "\<not> startsWith ''fd7a:115c:a1e0::9f01:1560'' ''fe80''"
    by (simp add: startsWith_def)
  from ipv6_first_global_match [of "\<lparr>code = 0,
              stdout = Some ''    inet6 fe80::1/64 scope link\<newline>    inet6 fd7a:115c:a1e0::9f01:1560/128 scope global'',
              message = JUndefined\<rparr>"
        "''    inet6 fe80::1/64 scope link\<newline>    inet6 fd7a:115c:a1e0::9f01:1560/128 scope global''"
        None None None, THEN conjunct1]
  obtain info where p: "loadInterfaceInfo None None None
      (Some \<lparr>code = 0,
              stdout = Some ''    inet6 fe80::1/64 scope link\<newline>    inet6 fd7a:115c:a1e0::9f01:1560/128 scope global'',
              message = JUndefined\<rparr>) = Some info"
    and f: "\<And>pre l post tok. js_split (CHR 0x0A)
      ''    inet6 fe80::1/64 scope link\<newline>    inet6 fd7a:115c:a1e0::9f01:1560/128 scope global''
         = pre @ l # post \<Longrightarrow>
       \<forall>p \<in> set pre. (case ipv6Match p of None \<Rightarrow> True | Some t \<Rightarrow> startsWith t ''fe80'') \<Longrightarrow>
       ipv6Match l = Some tok \<Longrightarrow> \<not> startsWith tok ''fe80'' \<Longrightarrow> ipv6 info = tok"
    by auto
  have "ipv6 info = ''fd7a:115c:a1e0::9f01:1560''"
    by (rule f [OF s n ipv6Match_example_global g])
  then show ?thesis using p by blast
qed

text \<open>
  Two inputs at which the claim as worded fails. In the output \<open>peer inet6 fd7a::1/128\<close>
  of a command that exited with code 0, a hex-colon token follows the marker, but the
  marker is not at the start of the line: the field is \<open>-\<close>. After a command that exited
  with code 1 the output is not scanned (line 38): its line
  \<open>    inet6 fd7a::1/128 scope global\<close>, which matches the pattern with the token
  \<open>fd7a::1\<close>, leaves the field at \<open>-\<close>.
\<close>

theorem ipv6_first_global_match_counterexample:
  "loadInterfaceInfo None None None
      (Some \<lparr>code = 0, stdout = Some ''peer inet6 fd7a::1/128'', message = JUndefined\<rparr>)
     = Some \<lparr>name = ''tailscale0'', rxBytes = ''-'', txBytes = ''-'', mtu = ''-'',
              ipv4 = ''-'', ipv6 = ''-''\<rparr>
   \<and> loadInterfaceInfo None None (Some ''1280'')
      (Some \<lparr>code = 1, stdout = Some ''    inet6 fd7a::1/128 scope global'',
              message = JUndefined\<rparr>)
     = Some \<lparr>name = ''tailscale0'', rxBytes = ''-'', txBytes = ''-'', mtu = ''1280'',
              ipv4 = ''-'', ipv6 = ''-''\<rparr>
   \<and> ipv6Match ''    inet6 fd7a::1/128 scope global'' = Some ''fd7a::1''
   \<and> \<not> startsWith ''fd7a::1'' ''fe80''"
proof -
  have m: "ipv4Match ''peer inet6 fd7a::1/128'' = None"
    "ipv6Match ''peer inet6 fd7a::1/128'' = None"
    by (simp_all add: ipv4Match_def ipv6Match_def match_marker_def js_space_def)
  have s: "js_split (CHR 0x0A) ''peer inet6 fd7a::1/128'' = [''peer inet6 fd7a::1/128'']"
    by simp
  have "scan_lines [''peer inet6 fd7a::1/128''] (None, None) = (None, None)"
    by (simp add: m)
  then have a: "loadInterfaceInfo None None None
      (Some \<lparr>code = 0, stdout = Some ''peer inet6 fd7a::1/128'', message = JUndefined\<rparr>)
     = Some \<lparr>name = ''tailscale0'', rxBytes = ''-'', txBytes = ''-'', mtu = ''-'',
              ipv4 = ''-'', ipv6 = ''-''\<rparr>"
    by (simp add: loadInterfaceInfo_def s del: js_split.simps)
  have b: "loadInterfaceInfo None None (Some ''1280'')
      (Some \<lparr>code = 1, stdout = Some ''    inet6 fd7a::1/128 scope global'',
              message = JUndefined\<rparr>)
     = Some \<lparr>name = ''tailscale0'', rxBytes = ''-'', txBytes = ''-'', mtu = ''1280'',
              ipv4 = ''-'', ipv6 = ''-''\<rparr>"
    by (simp add: loadInterfaceInfo_def js_trim_def js_space_def del: js_split.simps)
  have c: "ipv6Match ''    inet6 fd7a::1/128 scope global'' = Some ''fd7a::1''"
    by (simp add: ipv6Match_def match_marker_def js_space_def hex_colon_class_def is_digit_def)
  have d: "\<not> startsWith ''fd7a::1'' ''fe80''"
    by (simp add: startsWith_def)
  show ?thesis
    using a b c d by (intro conjI)
qed

subsection \<open>The messages of the peer status collector\<close>

lemma js_trim_blank: "list_all js_space s \<Longrightarrow> js_trim s = []"
  by (auto simp: js_trim_def list_all_iff dest: set_dropWhileD)

lemma format_s_unable:
  "format_s (gettext ''Unable to get Tailscale status: %s'') m
     = ''Unable to get Tailscale status: '' @ m"
  by (simp add: gettext_def)

lemma format_s_parsing:
  "format_s (gettext ''Error parsing Tailscale status: %s'') m
     = ''Error parsing Tailscale status: '' @ m"
  by (simp add: gettext_def)

subsection \<open>The status command exits with a code other than zero\<close>

lemma loadPeerStatus_nonzero:
  assumes "code r \<noteq> 0" and "message r = JStr m"
  shows \<open>loadPeerStatus parse (Resolved r) = Inr (PeerError
     (if js_includes m ''Permission''
      then ''Permission denied: Ensure LuCI has access to run "tailscale status".''
      else if js_includes m ''not running'' \<or> js_includes m ''stopped''
      then ''Tailscale service is not running.''
      else ''Unable to get Tailscale status: '' @ m))\<close>
  using assms by (simp add: loadPeerStatus_def await_status_def format_s_unable) (simp add: gettext_def)

text \<open>A command that could not be executed is classified in the same way, by the message
  of the error, as an exit with code 1.\<close>

lemma loadPeerStatus_rejected:
  "loadPeerStatus parse (Rejected err_message)
     = loadPeerStatus parse
         (Resolved \<lparr>code = 1, stdout = None,
                     message = js_or err_message (JStr ''Failed to execute tailscale command'')\<rparr>)"
  by (simp add: loadPeerStatus_def await_status_def)

text \<open>
  Claim C3. When the status command exits with a code other than zero and a message text
  \<open>m\<close>, the collector returns the error variant with: the permission-denied message if
  \<open>m\<close> contains \<open>Permission\<close>; otherwise the service-not-running message if \<open>m\<close>
  contains \<open>not running\<close> or \<open>stopped\<close>; otherwise the generic message, which ends with
  the raw text \<open>m\<close>.
\<close>

theorem nonzero_exit_classification:
  assumes "code r \<noteq> 0" and "message r = JStr m"
  shows \<open>loadPeerStatus parse (Resolved r) = Inr (PeerError
     (if js_includes m ''Permission''
      then ''Permission denied: Ensure LuCI has access to run "tailscale status".''
      else if js_includes m ''not running'' \<or> js_includes m ''stopped''
      then ''Tailscale service is not running.''
      else ''Unable to get Tailscale status: '' @ m))\<close>
  using assms by (rule loadPeerStatus_nonzero)

theorem nonzero_exit_classification_witness:
  \<open>loadPeerStatus json_parse
      (Resolved \<lparr>code = 1, stdout = None, message = JStr ''Permission denied''\<rparr>)
     = Inr (PeerError ''Permission denied: Ensure LuCI has access to run "tailscale status".'')
   \<and> loadPeerStatus json_parse
      (Resolved \<lparr>code = 2, stdout = Some [], message = JStr ''tailscaled is not running''\<rparr>)
     = Inr (PeerError ''Tailscale service is not running.'')
   \<and> loadPeerStatus json_parse
      (Resolved \<lparr>code = 1, stdout = None, message = JStr ''Tailscale is stopped.''\<rparr>)
     = Inr (PeerError ''Tailscale service is not running.'')
   \<and> loadPeerStatus json_parse
      (Resolved \<lparr>code = 127, stdout = None, message = JStr ''not found''\<rparr>)
     = Inr (PeerError ''Unable to get Tailscale status: not found'')\<close>
  using nonzero_exit_classification
      [of "\<lparr>code = 1, stdout = None, message = JStr ''Permission denied''\<rparr>"
          "''Permission denied''" json_parse]
    nonzero_exit_classification
      [of "\<lparr>code = 2, stdout = Some [], message = JStr ''tailscaled is not running''\<rparr>"
          "''tailscaled is not running''" json_parse]
    nonzero_exit_classification
      [of "\<lparr>code = 1, stdout = None, message = JStr ''Tailscale is stopped.''\<rparr>"
          "''Tailscale is stopped.''" json_parse]
    nonzero_exit_classification
      [of "\<lparr>code = 127, stdout = None, message = JStr ''not found''\<rparr>"
          "''not found''" json_parse]
  by simp

text \<open>
  Claim C10. When the message of a non-zero exit contains \<open>Permission\<close> and also
  \<open>not running\<close> or \<open>stopped\<close>, the collector returns the permission-denied message:
  \<open>Permission\<close> is tested first.
\<close>

theorem permission_takes_precedence:
  assumes "code r \<noteq> 0" and "message r = JStr m"
    and "js_includes m ''Permission''"
    and "js_includes m ''not running'' \<or> js_includes m ''stopped''"
  shows \<open>loadPeerStatus parse (Resolved r) = Inr (PeerError
     ''Permission denied: Ensure LuCI has access to run "tailscale status".'')\<close>
  using assms loadPeerStatus_nonzero [of r m parse] by simp

theorem permission_takes_precedence_witness:
  \<open>js_includes ''Permission denied: tailscaled is not running'' ''Permission''
   \<and> js_includes ''Permission denied: tailscaled is not running'' ''not running''
   \<and> loadPeerStatus json_parse
      (Resolved \<lparr>code = 1, stdout = None,
                  message = JStr ''Permission denied: tailscaled is not running''\<rparr>)
     = Inr (PeerError ''Permission denied: Ensure LuCI has access to run "tailscale status".'')\<close>
  using permission_takes_precedence
      [of "\<lparr>code = 1, stdout = None,
             message = JStr ''Permission denied: tailscaled is not running''\<rparr>"
          "''Permission denied: tailscaled is not running''" json_parse]
  by simp

subsection \<open>The status command prints nothing\<close>

text \<open>
  Claim C4. When the status command exits with code 0 and its standard output is empty
  or holds white space only, the collector returns the empty-output message. The parser
  is not consulted: the result is the same under every parser, and it is no
  parse-error message.
\<close>

theorem blank_output_is_empty_output_error:
  assumes "code r = 0" and "stdout r = Some out" and "list_all js_space out"
  shows "loadPeerStatus parse (Resolved r)
           = Inr (PeerError ''Tailscale status returned empty output.'')
       \<and> loadPeerStatus parse' (Resolved r) = loadPeerStatus parse (Resolved r)
       \<and> loadPeerStatus parse (Resolved r)
           \<noteq> Inr (PeerError
                 (format_s (gettext ''Error parsing Tailscale status: %s'') e))"
  using assms
  by (simp add: loadPeerStatus_def await_status_def js_trim_blank format_s_parsing) (simp add: gettext_def)

theorem blank_output_is_empty_output_error_witness:
  "list_all js_space [CHR 0x20, CHR 0x09, CHR 0x0A]
   \<and> loadPeerStatus (\<lambda>s. Inl (SyntaxError ''unexpected end of data''))
         (Resolved \<lparr>code = 0, stdout = Some [CHR 0x20, CHR 0x09, CHR 0x0A],
                     message = JUndefined\<rparr>)
       = Inr (PeerError ''Tailscale status returned empty output.'')
   \<and> loadPeerStatus json_parse
         (Resolved \<lparr>code = 0, stdout = Some [], message = JUndefined\<rparr>)
       = Inr (PeerError ''Tailscale status returned empty output.'')"
  using blank_output_is_empty_output_error
      [of "\<lparr>code = 0, stdout = Some [CHR 0x20, CHR 0x09, CHR 0x0A], message = JUndefined\<rparr>"
          "[CHR 0x20, CHR 0x09, CHR 0x0A]" "\<lambda>s. Inl (SyntaxError ''unexpected end of data'')"]
    blank_output_is_empty_output_error
      [of "\<lparr>code = 0, stdout = Some [], message = JUndefined\<rparr>" "[]" json_parse]
  by (simp add: js_space_def)

subsection \<open>The body of the \<open>try\<close>\<close>

lemma js_falsy_iff:
  "\<not> js_truthy v \<longleftrightarrow>
     v = JUndefined \<or> v = JNull \<or> v = JBool False \<or> v = JNum 0 \<or> v = JStr []"
  by (cases v) auto

lemma get_prop_js_field: "\<not> js_nullish v \<Longrightarrow> get_prop nm v key = Inr (js_field v key)"
  by (cases v) (simp_all add: js_field_def)

lemma get_prop_nullish: "js_nullish v \<Longrightarrow> \<exists>e. get_prop nm v key = Inl e"
  by (cases v) simp_all

lemma is_string_iff: "is_string v \<longleftrightarrow> (\<exists>s. v = JStr s)"
  by (cases v) simp_all

lemma js_split_nonempty: "js_split sep s \<noteq> []"
  by (induction s) (auto split: list.splits)

lemma peer_hostname_ok:
  assumes "summarisable peer"
  shows "\<exists>h. peer_hostname peer = Inr h"
proof -
  from assms have n: "\<not> js_nullish peer" by (simp add: summarisable_def)
  show ?thesis
  proof (cases "js_truthy (js_field peer ''DNSName'')")
    case True
    then obtain s where "js_field peer ''DNSName'' = JStr s"
      using assms by (auto simp: summarisable_def is_string_iff)
    then show ?thesis
      using True js_split_nonempty [of "CHR ''.''" s]
      by (cases "js_split CHR ''.'' s") (simp_all add: peer_hostname_def get_prop_js_field [OF n])
  next
    case False
    then show ?thesis by (simp add: peer_hostname_def get_prop_js_field [OF n])
  qed
qed

lemma peer_hostname_fail:
  assumes "\<not> summarisable peer"
  shows "\<exists>e. peer_hostname peer = Inl e"
proof (cases "js_nullish peer")
  case True
  then show ?thesis
    using get_prop_nullish [OF True, of "''peer''" "''DNSName''"]
    by (auto simp: peer_hostname_def)
next
  case False
  then have "js_truthy (js_field peer ''DNSName'')" "\<not> is_string (js_field peer ''DNSName'')"
    using assms by (auto simp: summarisable_def)
  then show ?thesis
    by (cases "js_field peer ''DNSName''")
      (simp_all add: peer_hostname_def get_prop_js_field [OF False])
qed

lemma peer_summary_ok:
  assumes "summarisable peer"
  shows "\<exists>s. peer_summary peer = Inr s \<and>
           rxBytes s = (if js_truthy (js_field peer ''RxBytes'')
                        then format_1024mB (js_field peer ''RxBytes'') else ''-'') \<and>
           txBytes s = (if js_truthy (js_field peer ''TxBytes'')
                        then format_1024mB (js_field peer ''TxBytes'') else ''-'')"
proof -
  obtain h where "peer_hostname peer = Inr h"
    using peer_hostname_ok [OF assms] by blast
  then show ?thesis by (simp add: peer_summary_def)
qed

lemma peer_summary_fail:
  assumes "\<not> summarisable peer"
  shows "\<exists>e. peer_summary peer = Inl e"
proof -
  obtain e where "peer_hostname peer = Inl e"
    using peer_hostname_fail [OF assms] by blast
  then show ?thesis by (simp add: peer_summary_def)
qed

lemma peer_loop_ok:
  assumes "list_all summarisable ps"
  shows "\<exists>l. peer_loop ps acc = Inr (acc @ l) \<and> length l = length ps \<and>
           (\<forall>i < length ps. peer_summary (ps ! i) = Inr (l ! i))"
  using assms
proof (induction ps arbitrary: acc)
  case Nil
  then show ?case by simp
next
  case (Cons p ps)
  then obtain s where s: "peer_summary p = Inr s"
    using peer_summary_ok [of p] by auto
  have "list_all summarisable ps" using Cons.prems by simp
  from Cons.IH [OF this, of "acc @ [s]"]
  obtain l where l: "peer_loop ps (acc @ [s]) = Inr ((acc @ [s]) @ l)"
    "length l = length ps" "\<forall>i < length ps. peer_summary (ps ! i) = Inr (l ! i)"
    by blast
  have "peer_loop (p # ps) acc = Inr (acc @ s # l)" using s l(1) by simp
  moreover have "length (s # l) = length (p # ps)" using l(2) by simp
  moreover have "\<forall>i < length (p # ps). peer_summary ((p # ps) ! i) = Inr ((s # l) ! i)"
    using s l(3) by (auto simp: nth_Cons split: nat.splits)
  ultimately show ?case by blast
qed

lemma peer_loop_fail:
  assumes "\<not> list_all summarisable ps"
  shows "\<exists>e. peer_loop ps acc = Inl e"
  using assms
proof (induction ps arbitrary: acc)
  case Nil
  then show ?case by simp
next
  case (Cons p ps)
  show ?case
  proof (cases "summarisable p")
    case True
    then obtain s where "peer_summary p = Inr s"
      using peer_summary_ok [of p] by auto
    then show ?thesis using Cons True by simp
  next
    case False
    then obtain e where "peer_summary p = Inl e"
      using peer_summary_fail by blast
    then show ?thesis by simp
  qed
qed

lemma loadPeerStatus_parsed:
  assumes "code r = 0" and "stdout r = Some out" and "js_trim out \<noteq> []"
  shows "loadPeerStatus parse (Resolved r) =
           (case status_try parse out of
              Inr st \<Rightarrow> Inr st
            | Inl e \<Rightarrow> Inr (PeerError (''Error parsing Tailscale status: '' @ error_message e)))"
proof -
  have "out \<noteq> []" using assms(3) by (auto simp: js_trim_def)
  then show ?thesis
    using assms by (simp add: loadPeerStatus_def await_status_def format_s_parsing split: sum.splits)
qed

lemma loadPeerStatus_returns:
  "outcome \<noteq> ResolvedNothing \<Longrightarrow> \<exists>st. loadPeerStatus parse outcome = Inr st"
  by (cases outcome)
    (auto simp: loadPeerStatus_def await_status_def Let_def split: sum.splits option.splits)

lemma loadInterfaceInfo_promise_rejected:
  "rxRead = Rejects e \<or> txRead = Rejects e \<or> mtuRead = Rejects e \<or> ipExec = Rejects e
     \<Longrightarrow> \<exists>err. loadInterfaceInfo_promise rxRead txRead mtuRead ipExec = Inl err"
  by (auto simp: loadInterfaceInfo_promise_def split: settled.splits)

subsection \<open>The boundary of the collectors\<close>

text \<open>The body of the \<open>try\<close> does throw: on a text that is no JSON, on the document
  \<open>null\<close>, on a peer that is \<open>null\<close>. The \<open>catch\<close> turns each into a message.\<close>

lemma status_try_syntax_error: "parse out = Inl e \<Longrightarrow> status_try parse out = Inl e"
  by (simp add: status_try_def)

lemma status_try_null_document:
  "parse out = Inr JNull \<Longrightarrow> status_try parse out = Inl (TypeError ''statusJson is null'')"
  by (simp add: status_try_def)

lemma status_try_null_peer:
  "parse out = Inr (JObj [(''Peer'', JObj [(k, JNull)])])
     \<Longrightarrow> status_try parse out = Inl (TypeError ''peer is null'')"
  by (simp add: status_try_def js_or_def peer_summary_def peer_hostname_def)

text \<open>
  Claim C2, a defect of the code. When the promise of the status command is rejected, or
  resolves with a result of any exit code, output and message, then whatever the parser
  does with the output (it throws, or it returns any value at all) the collector returns:
  its result is the error variant with a message or the success variant with a list of
  summaries, and \<open>load\<close>, once the four reads of the interface collector have resolved,
  returns a result whose peer status is that value. But an exception does leave the
  collectors in two cases. When the status command resolves with nothing, the outcome that
  line 28 tests for the address command, line 66 reads \<open>statusRes.code\<close> outside the
  \<open>try\<close> and throws, and \<open>load\<close> throws with it. When the promise of one of the four
  reads of the interface collector is rejected, which line 61 handles for the status
  command and lines 20 to 25 do not, \<open>load\<close> throws whatever the status command does.
\<close>

theorem peer_status_boundary:
  "(outcome \<noteq> ResolvedNothing \<longrightarrow>
      (\<exists>st. loadPeerStatus parse outcome = Inr st \<and>
          ((\<exists>msg. st = PeerError msg) \<or> (\<exists>peers. st = PeerList peers)) \<and>
          load parse (Resolves rxRes) (Resolves txRes) (Resolves mtuRes) (Resolves ipRes) outcome
            = Inr \<lparr>interfaceInfo = loadInterfaceInfo rxRes txRes mtuRes ipRes,
                   peerStatus = st\<rparr>))
   \<and> loadPeerStatus parse ResolvedNothing = Inl (TypeError ''statusRes is null'')
   \<and> load parse (Resolves rxRes) (Resolves txRes) (Resolves mtuRes) (Resolves ipRes)
        ResolvedNothing = Inl (TypeError ''statusRes is null'')
   \<and> (outcome \<noteq> ResolvedNothing \<longrightarrow>
        load parse (Resolves rxRes) (Resolves txRes) (Resolves mtuRes) (Rejects e) outcome
          = Inl e)
   \<and> (\<forall>rxRead txRead mtuRead ipExec.
        rxRead = Rejects e \<or> txRead = Rejects e \<or> mtuRead = Rejects e \<or> ipExec = Rejects e \<longrightarrow>
        (\<exists>err. load parse rxRead txRead mtuRead ipExec outcome = Inl err))"
proof (intro conjI allI impI)
  assume h: "outcome \<noteq> ResolvedNothing"
  obtain st where st: "loadPeerStatus parse outcome = Inr st"
    using loadPeerStatus_returns [OF h] by blast
  have "(\<exists>msg. st = PeerError msg) \<or> (\<exists>peers. st = PeerList peers)"
    by (cases st) auto
  moreover have "load parse (Resolves rxRes) (Resolves txRes) (Resolves mtuRes)
              (Resolves ipRes) outcome
            = Inr \<lparr>interfaceInfo = loadInterfaceInfo rxRes txRes mtuRes ipRes,
                   peerStatus = st\<rparr>"
    by (simp add: load_def loadInterfaceInfo_promise_def st)
  ultimately show "\<exists>st. loadPeerStatus parse outcome = Inr st \<and>
          ((\<exists>msg. st = PeerError msg) \<or> (\<exists>peers. st = PeerList peers)) \<and>
          load parse (Resolves rxRes) (Resolves txRes) (Resolves mtuRes) (Resolves ipRes) outcome
            = Inr \<lparr>interfaceInfo = loadInterfaceInfo rxRes txRes mtuRes ipRes,
                   peerStatus = st\<rparr>"
    using st by blast
next
  show n: "loadPeerStatus parse ResolvedNothing = Inl (TypeError ''statusRes is null'')"
    by (simp add: loadPeerStatus_def await_status_def)
  show "load parse (Resolves rxRes) (Resolves txRes) (Resolves mtuRes) (Resolves ipRes)
        ResolvedNothing = Inl (TypeError ''statusRes is null'')"
    by (simp add: load_def loadInterfaceInfo_promise_def n)
next
  show "load parse (Resolves rxRes) (Resolves txRes) (Resolves mtuRes) (Rejects e) outcome
          = Inl e"
    by (simp add: load_def loadInterfaceInfo_promise_def)
next
  fix rxRead txRead mtuRead :: "string option settled" and ipExec :: "exec_result option settled"
  assume "rxRead = Rejects e \<or> txRead = Rejects e \<or> mtuRead = Rejects e \<or> ipExec = Rejects e"
  then obtain err where "loadInterfaceInfo_promise rxRead txRead mtuRead ipExec = Inl err"
    using loadInterfaceInfo_promise_rejected by blast
  then show "\<exists>err. load parse rxRead txRead mtuRead ipExec outcome = Inl err"
    by (simp add: load_def)
qed

theorem peer_status_boundary_witness:
  \<open>Rejected JUndefined \<noteq> ResolvedNothing
   \<and> loadPeerStatus json_parse (Rejected JUndefined)
     = Inr (PeerError ''Unable to get Tailscale status: Failed to execute tailscale command'')
   \<and> load json_parse (Resolves None) (Resolves None) (Resolves None) (Resolves None)
        (Rejected JUndefined)
     = Inr \<lparr>interfaceInfo = None,
            peerStatus = PeerError
              ''Unable to get Tailscale status: Failed to execute tailscale command''\<rparr>
   \<and> load json_parse (Resolves None) (Resolves None) (Resolves None)
        (Rejects (HostError ''Command not found'')) (Rejected JUndefined)
     = Inl (HostError ''Command not found'')
   \<and> loadPeerStatus json_parse
        (Resolved \<lparr>code = 0, stdout = Some ''{"Peer":'', message = JUndefined\<rparr>)
     = Inr (PeerError
         ''Error parsing Tailscale status: JSON.parse: unexpected character or end of data'')
   \<and> loadPeerStatus json_parse
        (Resolved \<lparr>code = 0, stdout = Some ''{"Peer":{"a":null}}'', message = JUndefined\<rparr>)
     = Inr (PeerError ''Error parsing Tailscale status: peer is null'')\<close>
proof -
  have h: "Rejected JUndefined \<noteq> ResolvedNothing" by simp
  have a: \<open>loadPeerStatus json_parse (Rejected JUndefined)
     = Inr (PeerError ''Unable to get Tailscale status: Failed to execute tailscale command'')\<close>
    by (simp add: loadPeerStatus_def await_status_def js_or_def format_s_unable)
  have i: "loadInterfaceInfo None None None None = None"
    by (simp add: loadInterfaceInfo_def)
  note whole = peer_status_boundary [where outcome = "Rejected JUndefined" and parse = json_parse
      and rxRes = None and txRes = None and mtuRes = None and ipRes = None
      and e = "HostError ''Command not found''"]
  from whole [THEN conjunct1, rule_format, OF h]
  obtain st where s: "loadPeerStatus json_parse (Rejected JUndefined) = Inr st"
    and l: "load json_parse (Resolves None) (Resolves None) (Resolves None) (Resolves None)
              (Rejected JUndefined)
            = Inr \<lparr>interfaceInfo = loadInterfaceInfo None None None None, peerStatus = st\<rparr>"
    by blast
  have st: \<open>st = PeerError
      ''Unable to get Tailscale status: Failed to execute tailscale command''\<close>
    using s a by simp
  have b: \<open>load json_parse (Resolves None) (Resolves None) (Resolves None) (Resolves None)
        (Rejected JUndefined)
     = Inr \<lparr>interfaceInfo = None,
            peerStatus = PeerError
              ''Unable to get Tailscale status: Failed to execute tailscale command''\<rparr>\<close>
    using l by (simp only: i st)
  have c: \<open>load json_parse (Resolves None) (Resolves None) (Resolves None)
        (Rejects (HostError ''Command not found'')) (Rejected JUndefined)
     = Inl (HostError ''Command not found'')\<close>
    by (rule whole [THEN conjunct2, THEN conjunct2, THEN conjunct2, THEN conjunct1,
          rule_format, OF h])
  have p1: \<open>json_parse ''{"Peer":'' = Inl (SyntaxError
       ''JSON.parse: unexpected character or end of data'')\<close>
    by (simp add: json_parse_def json_ws_def json_number_def is_digit_def)
  have p2: \<open>json_parse ''{"Peer":{"a":null}}'' = Inr (JObj [(''Peer'', JObj [(''a'', JNull)])])\<close>
    by (simp add: json_parse_def json_ws_def json_object_def is_index_key_def is_digit_def)
  have t1: \<open>js_trim ''{"Peer":'' \<noteq> []\<close> \<open>js_trim ''{"Peer":{"a":null}}'' \<noteq> []\<close>
    by (simp_all add: js_trim_def js_space_def)
  have d: \<open>loadPeerStatus json_parse
        (Resolved \<lparr>code = 0, stdout = Some ''{"Peer":'', message = JUndefined\<rparr>)
     = Inr (PeerError
         ''Error parsing Tailscale status: JSON.parse: unexpected character or end of data'')\<close>
    by (simp add: loadPeerStatus_parsed t1 status_try_syntax_error [of json_parse, OF p1])
  have f: \<open>loadPeerStatus json_parse
        (Resolved \<lparr>code = 0, stdout = Some ''{"Peer":{"a":null}}'', message = JUndefined\<rparr>)
     = Inr (PeerError ''Error parsing Tailscale status: peer is null'')\<close>
    by (simp add: loadPeerStatus_parsed t1 status_try_null_peer [of json_parse, OF p2])
  show ?thesis
    using h a b c d f by (intro conjI)
qed

subsection \<open>The specification's example\<close>

lemma js_trim_example_stdout: "js_trim example_stdout \<noteq> []"
  by (simp add: js_trim_def js_space_def example_stdout_def)

lemma json_parse_example: "json_parse example_stdout = Inr example_status"
  by (simp add: json_parse_def example_stdout_def example_status_def json_ws_def
      json_object_def is_index_key_def is_digit_def json_number_def js_number_exact digit_val_def
      json_escape_def)

lemma status_try_example:
  assumes "parse example_stdout = Inr example_status"
  shows "status_try parse example_stdout =
           Inr (PeerList [\<lparr>ip = JStr ''100.1.2.3'', hostname = JStr ''node1'',
                           online = JBool True, relay = JStr ''-'', direct = False,
                           rxBytes = ''2 MB'', txBytes = ''-''\<rparr>])"
  by (simp add: status_try_def assms example_status_def js_or_def peer_summary_def
      peer_hostname_def js_field_def format_example_count)

text \<open>
  Claim C6. When the status command exits with code 0 and prints the example text of the
  specification, and the parser gives the document that the text denotes, the collector
  returns the success variant with exactly one summary: host name \<open>node1\<close> (the DNS name
  up to its first dot), online, address \<open>100.1.2.3\<close>, received bytes \<open>2 MB\<close>, and not
  direct, since the record has no \<open>CurAddr\<close>; its relay and its sent bytes are \<open>-\<close>.
\<close>

theorem example_peer_summary:
  assumes "code r = 0" and "stdout r = Some example_stdout"
    and "parse example_stdout = Inr example_status"
  shows "loadPeerStatus parse (Resolved r) =
           Inr (PeerList [\<lparr>ip = JStr ''100.1.2.3'', hostname = JStr ''node1'',
                           online = JBool True, relay = JStr ''-'', direct = False,
                           rxBytes = ''2 MB'', txBytes = ''-''\<rparr>])"
  by (simp add: loadPeerStatus_parsed [OF assms(1,2) js_trim_example_stdout]
      status_try_example [of parse, OF assms(3)])

theorem example_peer_summary_witness:
  "json_parse example_stdout = Inr example_status
   \<and> loadPeerStatus json_parse
        (Resolved \<lparr>code = 0, stdout = Some example_stdout, message = JUndefined\<rparr>) =
       Inr (PeerList [\<lparr>ip = JStr ''100.1.2.3'', hostname = JStr ''node1'',
                       online = JBool True, relay = JStr ''-'', direct = False,
                       rxBytes = ''2 MB'', txBytes = ''-''\<rparr>])"
  using json_parse_example
    example_peer_summary
      [of "\<lparr>code = 0, stdout = Some example_stdout, message = JUndefined\<rparr>" json_parse,
       OF _ _ json_parse_example]
  by simp

subsection \<open>The list of peers\<close>

lemma status_try_document:
  assumes "parse out = Inr doc" and "\<not> js_nullish doc"
  shows "status_try parse out =
           (case peer_loop (object_values (js_or (js_field doc ''Peer'') (JObj []))) [] of
              Inl e \<Rightarrow> Inl e
            | Inr peerList \<Rightarrow> Inr (PeerList peerList))"
  by (simp add: status_try_def assms(1) get_prop_js_field [OF assms(2)])

lemma status_try_nullish:
  assumes "parse out = Inr doc" and "js_nullish doc"
  shows "\<exists>e. status_try parse out = Inl e"
  using get_prop_nullish [OF assms(2), of "''statusJson''" "''Peer''"]
  by (auto simp: status_try_def assms(1))

lemma js_field_object_not_nullish: "js_field doc key = JObj kvs \<Longrightarrow> \<not> js_nullish doc"
  by (cases doc) (simp_all add: js_field_def)

text \<open>
  Claim C9, amended. Let the status command exit with code 0 and print a text that the
  parser accepts. If the document is neither \<open>null\<close> nor \<open>undefined\<close> and its \<open>Peer\<close>
  field is absent (or any other falsy value), the collector returns the success variant
  with the empty list. If \<open>Peer\<close> is a mapping and every entry can be summarised (it is
  not \<open>null\<close>, and its \<open>DNSName\<close> is falsy or a string), the collector returns the
  success variant with one summary per entry, in the order of the mapping, in which
  \<open>rxBytes\<close> (and likewise \<open>txBytes\<close>) is \<open>-\<close> when the raw counter is falsy, that is
  absent, \<open>null\<close>, \<open>false\<close>, zero or the empty string, and the formatted counter
  otherwise. If some entry cannot be summarised, or the document is \<open>null\<close>, the
  collector returns the error variant.
\<close>

theorem peer_list_of_parsed_status:
  assumes "code r = 0" and "stdout r = Some out" and "js_trim out \<noteq> []"
    and "parse out = Inr doc"
  shows
    "(\<not> js_nullish doc \<and> \<not> js_truthy (js_field doc ''Peer'') \<longrightarrow>
        loadPeerStatus parse (Resolved r) = Inr (PeerList []))
     \<and> (\<forall>kvs. js_field doc ''Peer'' = JObj kvs \<and> list_all summarisable (map snd kvs) \<longrightarrow>
          (\<exists>l. loadPeerStatus parse (Resolved r) = Inr (PeerList l) \<and>
               length l = length kvs \<and>
               (\<forall>i < length kvs.
                  peer_summary (snd (kvs ! i)) = Inr (l ! i) \<and>
                  rxBytes (l ! i) =
                    (let raw = js_field (snd (kvs ! i)) ''RxBytes''
                     in if raw = JUndefined \<or> raw = JNull \<or> raw = JBool False \<or>
                           raw = JNum 0 \<or> raw = JStr []
                        then ''-'' else format_1024mB raw) \<and>
                  txBytes (l ! i) =
                    (let raw = js_field (snd (kvs ! i)) ''TxBytes''
                     in if raw = JUndefined \<or> raw = JNull \<or> raw = JBool False \<or>
                           raw = JNum 0 \<or> raw = JStr []
                        then ''-'' else format_1024mB raw))))
     \<and> (\<forall>kvs. js_field doc ''Peer'' = JObj kvs \<and> \<not> list_all summarisable (map snd kvs) \<longrightarrow>
          (\<exists>msg. loadPeerStatus parse (Resolved r) = Inr (PeerError msg)))
     \<and> (js_nullish doc \<longrightarrow> (\<exists>msg. loadPeerStatus parse (Resolved r) = Inr (PeerError msg)))"
proof (intro conjI allI impI)
  note run = loadPeerStatus_parsed [OF assms(1,2,3), of parse]
  {
    assume h: "\<not> js_nullish doc \<and> \<not> js_truthy (js_field doc ''Peer'')"
    then have "status_try parse out = Inr (PeerList [])"
      by (simp add: status_try_document [of parse, OF assms(4)] js_or_def)
    then show "loadPeerStatus parse (Resolved r) = Inr (PeerList [])"
      by (simp add: run)
  next
    fix kvs
    assume h: "js_field doc ''Peer'' = JObj kvs \<and> list_all summarisable (map snd kvs)"
    then have peer: "js_field doc ''Peer'' = JObj kvs"
      and ok: "list_all summarisable (map snd kvs)" by blast+
    have nn: "\<not> js_nullish doc" using peer by (rule js_field_object_not_nullish)
    obtain l where l: "peer_loop (map snd kvs) [] = Inr ([] @ l)"
      "length l = length (map snd kvs)"
      "\<forall>i < length (map snd kvs). peer_summary (map snd kvs ! i) = Inr (l ! i)"
      using peer_loop_ok [OF ok, of "[]"] by blast
    have "status_try parse out = Inr (PeerList l)"
      using l(1) by (simp add: status_try_document [of parse, OF assms(4) nn] peer js_or_def)
    then have res: "loadPeerStatus parse (Resolved r) = Inr (PeerList l)"
      by (simp add: run)
    have each: "peer_summary (snd (kvs ! i)) = Inr (l ! i) \<and>
                  rxBytes (l ! i) =
                    (let raw = js_field (snd (kvs ! i)) ''RxBytes''
                     in if raw = JUndefined \<or> raw = JNull \<or> raw = JBool False \<or>
                           raw = JNum 0 \<or> raw = JStr []
                        then ''-'' else format_1024mB raw) \<and>
                  txBytes (l ! i) =
                    (let raw = js_field (snd (kvs ! i)) ''TxBytes''
                     in if raw = JUndefined \<or> raw = JNull \<or> raw = JBool False \<or>
                           raw = JNum 0 \<or> raw = JStr []
                        then ''-'' else format_1024mB raw)"
      if i: "i < length kvs" for i
    proof -
      have s: "peer_summary (snd (kvs ! i)) = Inr (l ! i)"
        using l(3) i by simp
      have "summarisable (snd (kvs ! i))"
        using ok i by (simp add: list_all_length)
      from peer_summary_ok [OF this] s
      have "rxBytes (l ! i) = (if js_truthy (js_field (snd (kvs ! i)) ''RxBytes'')
                        then format_1024mB (js_field (snd (kvs ! i)) ''RxBytes'') else ''-'')"
        and "txBytes (l ! i) = (if js_truthy (js_field (snd (kvs ! i)) ''TxBytes'')
                        then format_1024mB (js_field (snd (kvs ! i)) ''TxBytes'') else ''-'')"
        by auto
      then show ?thesis
        using s js_falsy_iff [of "js_field (snd (kvs ! i)) ''RxBytes''"]
          js_falsy_iff [of "js_field (snd (kvs ! i)) ''TxBytes''"]
        by (simp add: Let_def)
    qed
    show "\<exists>l. loadPeerStatus parse (Resolved r) = Inr (PeerList l) \<and>
               length l = length kvs \<and>
               (\<forall>i < length kvs.
                  peer_summary (snd (kvs ! i)) = Inr (l ! i) \<and>
                  rxBytes (l ! i) =
                    (let raw = js_field (snd (kvs ! i)) ''RxBytes''
                     in if raw = JUndefined \<or> raw = JNull \<or> raw = JBool False \<or>
                           raw = JNum 0 \<or> raw = JStr []
                        then ''-'' else format_1024mB raw) \<and>
                  txBytes (l ! i) =
                    (let raw = js_field (snd (kvs ! i)) ''TxBytes''
                     in if raw = JUndefined \<or> raw = JNull \<or> raw = JBool False \<or>
                           raw = JNum 0 \<or> raw = JStr []
                        then ''-'' else format_1024mB raw))"
      using res l(2) each by (intro exI [of _ l]) simp
  next
    fix kvs
    assume h: "js_field doc ''Peer'' = JObj kvs \<and> \<not> list_all summarisable (map snd kvs)"
    then have peer: "js_field doc ''Peer'' = JObj kvs"
      and bad: "\<not> list_all summarisable (map snd kvs)" by blast+
    have nn: "\<not> js_nullish doc" using peer by (rule js_field_object_not_nullish)
    obtain e where "peer_loop (map snd kvs) [] = Inl e"
      using peer_loop_fail [OF bad] by blast
    then have "status_try parse out = Inl e"
      by (simp add: status_try_document [of parse, OF assms(4) nn] peer js_or_def)
    then show "\<exists>msg. loadPeerStatus parse (Resolved r) = Inr (PeerError msg)"
      by (simp add: run)
  next
    assume "js_nullish doc"
    then obtain e where "status_try parse out = Inl e"
      using status_try_nullish [of parse, OF assms(4)] by blast
    then show "\<exists>msg. loadPeerStatus parse (Resolved r) = Inr (PeerError msg)"
      by (simp add: run)
  }
qed

lemma json_parse_two_peers: "json_parse two_peers_stdout = Inr two_peers_status"
  by (simp add: json_parse_def two_peers_stdout_def two_peers_status_def two_peers_entries_def
      json_ws_def json_object_def is_index_key_def is_digit_def json_number_def js_number_exact digit_val_def
      json_escape_def)

lemma js_trim_two_peers: "js_trim two_peers_stdout \<noteq> []"
  by (simp add: js_trim_def js_space_def two_peers_stdout_def)

lemma two_peers_summarisable:
  "js_field two_peers_status ''Peer'' = JObj two_peers_entries \<and>
   list_all summarisable (map snd two_peers_entries)"
  by (simp add: two_peers_status_def two_peers_entries_def js_field_def summarisable_def)

lemma format_example_counts:
  "format_1024mB (JNum 3145728) = ''3 MB''" "format_1024mB (JNum 1048576) = ''1 MB''"
  by (simp_all add: format_1024mB_def render_int_def dec_eval)

theorem peer_list_of_parsed_status_witness:
  "\<exists>l. loadPeerStatus json_parse
          (Resolved \<lparr>code = 0, stdout = Some two_peers_stdout, message = JUndefined\<rparr>)
        = Inr (PeerList l)
      \<and> length l = 2
      \<and> rxBytes (l ! 0) = ''-'' \<and> txBytes (l ! 0) = ''-''
      \<and> rxBytes (l ! 1) = ''3 MB'' \<and> txBytes (l ! 1) = ''1 MB''"
proof -
  have c: "code \<lparr>code = 0, stdout = Some two_peers_stdout, message = JUndefined\<rparr> = 0"
    and s: "stdout \<lparr>code = 0, stdout = Some two_peers_stdout, message = JUndefined\<rparr>
              = Some two_peers_stdout"
    by simp_all
  note th = peer_list_of_parsed_status
      [of "\<lparr>code = 0, stdout = Some two_peers_stdout, message = JUndefined\<rparr>"
          two_peers_stdout json_parse two_peers_status,
       OF c s js_trim_two_peers json_parse_two_peers,
      THEN conjunct2, THEN conjunct1, rule_format, OF two_peers_summarisable]
  then obtain l where res: "loadPeerStatus json_parse
          (Resolved \<lparr>code = 0, stdout = Some two_peers_stdout, message = JUndefined\<rparr>)
        = Inr (PeerList l)"
    and len: "length l = length two_peers_entries"
    and each: "\<And>i. i < length two_peers_entries \<Longrightarrow>
        rxBytes (l ! i) =
          (let raw = js_field (snd (two_peers_entries ! i)) ''RxBytes''
           in if raw = JUndefined \<or> raw = JNull \<or> raw = JBool False \<or>
                 raw = JNum 0 \<or> raw = JStr []
              then ''-'' else format_1024mB raw) \<and>
        txBytes (l ! i) =
          (let raw = js_field (snd (two_peers_entries ! i)) ''TxBytes''
           in if raw = JUndefined \<or> raw = JNull \<or> raw = JBool False \<or>
                 raw = JNum 0 \<or> raw = JStr []
              then ''-'' else format_1024mB raw)"
    by blast
  have n: "length two_peers_entries = 2" by (simp add: two_peers_entries_def)
  have "rxBytes (l ! 0) = ''-'' \<and> txBytes (l ! 0) = ''-''"
    using each [of 0] by (simp add: two_peers_entries_def js_field_def)
  moreover have "rxBytes (l ! 1) = ''3 MB'' \<and> txBytes (l ! 1) = ''1 MB''"
    using each [of 1] by (simp add: two_peers_entries_def js_field_def format_example_counts)
  ultimately show ?thesis using res len n by auto
qed

theorem peer_list_of_parsed_status_counterexample:
  \<open>loadPeerStatus json_parse
      (Resolved \<lparr>code = 0, stdout = Some ''{"Peer":{"a":{"DNSName":5}}}'', message = JUndefined\<rparr>)
     = Inr (PeerError ''Error parsing Tailscale status: peer.DNSName.split is not a function'')
   \<and> loadPeerStatus json_parse
      (Resolved \<lparr>code = 0, stdout = Some ''{"Peer":{"a":{"RxBytes":false}}}'',
                  message = JUndefined\<rparr>)
     = Inr (PeerList [\<lparr>ip = JStr ''-'', hostname = JStr ''-'', online = JUndefined,
                        relay = JStr ''-'', direct = False, rxBytes = ''-'', txBytes = ''-''\<rparr>])
   \<and> loadPeerStatus json_parse
      (Resolved \<lparr>code = 0, stdout = Some ''null'', message = JUndefined\<rparr>)
     = Inr (PeerError ''Error parsing Tailscale status: statusJson is null'')\<close>
proof -
  have p1: \<open>json_parse ''{"Peer":{"a":{"DNSName":5}}}''
              = Inr (JObj [(''Peer'', JObj [(''a'', JObj [(''DNSName'', JNum 5)])])])\<close>
    by (simp add: json_parse_def json_ws_def json_object_def is_index_key_def is_digit_def
        json_number_def js_number_exact digit_val_def json_escape_def)
  have p2: \<open>json_parse ''{"Peer":{"a":{"RxBytes":false}}}''
              = Inr (JObj [(''Peer'', JObj [(''a'', JObj [(''RxBytes'', JBool False)])])])\<close>
    by (simp add: json_parse_def json_ws_def json_object_def is_index_key_def is_digit_def
        json_number_def js_number_exact digit_val_def json_escape_def)
  have p3: "json_parse ''null'' = Inr JNull"
    by (simp add: json_parse_def json_ws_def)
  have t: \<open>js_trim ''{"Peer":{"a":{"DNSName":5}}}'' \<noteq> []\<close>
    \<open>js_trim ''{"Peer":{"a":{"RxBytes":false}}}'' \<noteq> []\<close> "js_trim ''null'' \<noteq> []"
    by (simp_all add: js_trim_def js_space_def)
  have s1: \<open>status_try json_parse ''{"Peer":{"a":{"DNSName":5}}}''
              = Inl (TypeError ''peer.DNSName.split is not a function'')\<close>
    by (simp add: status_try_def p1 js_or_def peer_summary_def peer_hostname_def)
  have s2: \<open>status_try json_parse ''{"Peer":{"a":{"RxBytes":false}}}''
              = Inr (PeerList [\<lparr>ip = JStr ''-'', hostname = JStr ''-'', online = JUndefined,
                        relay = JStr ''-'', direct = False, rxBytes = ''-'', txBytes = ''-''\<rparr>])\<close>
    by (simp add: status_try_def p2 js_or_def peer_summary_def peer_hostname_def js_field_def)
  have s3: "status_try json_parse ''null'' = Inl (TypeError ''statusJson is null'')"
    by (rule status_try_null_document [of json_parse, OF p3])
  show ?thesis
    by (simp add: loadPeerStatus_parsed t s1 s2 s3)
qed

end
